theory Spec2Isabelle
  imports Main
begin

section \<open>Python sequences\<close>

text \<open>
  The two slices the programs take of a list or a string. \<^verbatim>\<open>xs[:n]\<close> keeps the
  first \<open>n\<close> elements, and counts from the end when \<open>n\<close> is negative; \<^verbatim>\<open>xs[-n:]\<close>
  (for a positive literal \<open>n\<close>) keeps the last \<open>n\<close> elements, all of them when the list
  is shorter. Neither raises.
\<close>

definition py_prefix :: "'a list \<Rightarrow> int \<Rightarrow> 'a list" where
  "py_prefix xs n =
     (if n < 0 then take (nat (int (length xs) + n)) xs else take (nat n) xs)"

definition py_suffix :: "'a list \<Rightarrow> nat \<Rightarrow> 'a list" where
  "py_suffix xs n = drop (length xs - n) xs"

text \<open>\<^verbatim>\<open>sep.join(parts)\<close>, and the line feed.\<close>

definition nl :: string where
  "nl = [CHR 0x0A]"

fun join :: "string \<Rightarrow> string list \<Rightarrow> string" where
  "join sep [] = []"
| "join sep [x] = x"
| "join sep (x # y # ys) = x @ sep @ join sep (y # ys)"


section \<open>The fetcher: \<^verbatim>\<open>jira_fetcher.py\<close>\<close>

subsection \<open>The search endpoint\<close>

text \<open>
  What one \<^verbatim>\<open>requests.get\<close> of the loop can do: raise (a transport error, a timeout),
  or return a status code with a body. The body either fails to decode
  (\<^verbatim>\<open>response.json()\<close> raises) or is an object whose \<^verbatim>\<open>issues\<close> and \<^verbatim>\<open>total\<close> keys may be
  absent (\<open>None\<close>); \<^verbatim>\<open>data.get\<close> then supplies the defaults \<^verbatim>\<open>[]\<close> and \<^verbatim>\<open>0\<close>.

  A server is a function of the two parameters that vary, \<^verbatim>\<open>startAt\<close> and \<^verbatim>\<open>maxResults\<close>.
  The loop asks for each offset at most once, so this covers a server with state.
\<close>

datatype 'a json_body = Malformed | Payload "'a list option" "int option"

datatype 'a response = Transport_error | Http nat "'a json_body"

type_synonym 'a server = "nat \<Rightarrow> nat \<Rightarrow> 'a response"

definition request_fails :: "'a response \<Rightarrow> bool" where
  "request_fails r = (case r of Transport_error \<Rightarrow> True | Http code b \<Rightarrow> code \<noteq> 200)"

text \<open>
  The simulated server of the testable properties: it holds the matching tickets in its
  declared order, answers every request with status 200, the page of at most
  \<^verbatim>\<open>maxResults\<close> tickets from \<^verbatim>\<open>startAt\<close> on, and their total number.
\<close>

definition sim_server :: "'a list \<Rightarrow> 'a server" where
  "sim_server ts start maxr =
     Http 200 (Payload (Some (take maxr (drop start ts))) (Some (int (length ts))))"

subsection \<open>What the loop logs and prints\<close>

datatype fetch_event =
    Page_request nat            \<comment> \<open>\<^verbatim>\<open>requests.get\<close> with this \<^verbatim>\<open>startAt\<close>\<close>
  | Failed_status nat           \<comment> \<open>"Failed to fetch tickets: HTTP ..."\<close>
  | Batch_fetched nat int       \<comment> \<open>"Batch fetched: ... tickets", "Total available: ..."\<close>
  | No_more_tickets             \<comment> \<open>"No more tickets to fetch"\<close>
  | Progress nat int            \<comment> \<open>"Fetched .../... tickets..."\<close>
  | Reached_limit int           \<comment> \<open>"Reached user-specified limit of ... tickets"\<close>
  | Fetched_all                 \<comment> \<open>"Fetched all available tickets"\<close>
  | Fetched_total nat           \<comment> \<open>"Fetched ... tickets total"\<close>
  | More_available int          \<comment> \<open>"... more tickets available"\<close>
  | Error_fetching              \<comment> \<open>"Error fetching tickets: ..."\<close>

fun page_requests :: "fetch_event list \<Rightarrow> nat list" where
  "page_requests [] = []"
| "page_requests (Page_request n # es) = n # page_requests es"
| "page_requests (e # es) = page_requests es"

fun batch_sizes :: "fetch_event list \<Rightarrow> nat list" where
  "batch_sizes [] = []"
| "batch_sizes (Batch_fetched n t # es) = n # batch_sizes es"
| "batch_sizes (e # es) = batch_sizes es"

fun shortfalls :: "fetch_event list \<Rightarrow> int list" where
  "shortfalls [] = []"
| "shortfalls (More_available n # es) = n # shortfalls es"
| "shortfalls (e # es) = shortfalls es"

subsection \<open>\<^verbatim>\<open>fetch_tickets\<close>\<close>

record 'a fetch_state =
  all_tickets :: "'a list"
  start_at :: nat
  total_available :: "int option"
  log :: "fetch_event list"

definition batch_size :: nat where
  "batch_size = 100"

definition initial_state :: "'a fetch_state" where
  "initial_state = \<lparr>all_tickets = [], start_at = 0, total_available = None, log = []\<rparr>"

definition emit :: "fetch_event \<Rightarrow> 'a fetch_state \<Rightarrow> 'a fetch_state" where
  "emit e s = s\<lparr>log := log s @ [e]\<rparr>"

text \<open>
  How one pass through the body of \<^verbatim>\<open>while True\<close> ends: at the bottom of the body
  (\<open>Continue\<close>), or by leaving the loop, at a \<^verbatim>\<open>break\<close> (\<open>Broke\<close>) or with an exception
  (\<open>Raised\<close>); each with the variables as they are then.
\<close>

datatype 'a loop_exit = Broke "'a fetch_state" | Raised "'a fetch_state"

datatype 'a step = Continue "'a fetch_state" | Exit "'a loop_exit"

text \<open>
  \<^verbatim>\<open>max_results and len(all_tickets) >= max_results\<close>: \<^verbatim>\<open>None\<close> and \<^verbatim>\<open>0\<close> are false. The
  result is the limit to cut at, when the test holds.
\<close>

definition limit_reached :: "int option \<Rightarrow> nat \<Rightarrow> int option" where
  "limit_reached max_results n =
     (case max_results of
        None \<Rightarrow> None
      | Some m \<Rightarrow> if m \<noteq> 0 \<and> m \<le> int n then Some m else None)"

definition fetch_body :: "'a server \<Rightarrow> int option \<Rightarrow> 'a fetch_state \<Rightarrow> 'a step" where
  "fetch_body srv max_results s =
     (let s1 = emit (Page_request (start_at s)) s in
      case srv (start_at s) batch_size of
        Transport_error \<Rightarrow> Exit (Raised s1)
      | Http code b \<Rightarrow>
          if code \<noteq> 200 then Exit (Broke (emit (Failed_status code) s1))
          else (case b of
              Malformed \<Rightarrow> Exit (Raised s1)
            | Payload issues declared \<Rightarrow>
                let batch_tickets = (case issues of None \<Rightarrow> [] | Some i \<Rightarrow> i);
                    tot = (case declared of None \<Rightarrow> 0 | Some t \<Rightarrow> t);
                    s2 = emit (Batch_fetched (length batch_tickets) tot)
                           (s1\<lparr>total_available := Some tot\<rparr>)
                in if batch_tickets = [] then Exit (Broke (emit No_more_tickets s2))
                   else
                     let s3 = s2\<lparr>all_tickets := all_tickets s2 @ batch_tickets\<rparr>;
                         s4 = emit (Progress (length (all_tickets s3)) tot) s3
                     in (case limit_reached max_results (length (all_tickets s4)) of
                           Some m \<Rightarrow>
                             Exit (Broke (emit (Reached_limit m)
                               (s4\<lparr>all_tickets := py_prefix (all_tickets s4) m\<rparr>)))
                         | None \<Rightarrow>
                             (if tot \<le> int (length (all_tickets s4))
                              then Exit (Broke (emit Fetched_all s4))
                              else Continue (s4\<lparr>start_at := start_at s4 + batch_size\<rparr>)))))"

text \<open>
  The loop has no bound of its own: a server that keeps sending full pages and a larger
  total keeps it running. \<open>None\<close> is the run that never leaves the loop.
\<close>

partial_function (option) fetch_loop ::
  "'a server \<Rightarrow> int option \<Rightarrow> 'a fetch_state \<Rightarrow> 'a loop_exit option" where
  "fetch_loop srv max_results s =
     (case fetch_body srv max_results s of
        Continue s' \<Rightarrow> fetch_loop srv max_results s'
      | Exit x \<Rightarrow> Some x)"

record 'a fetch_result =
  returned :: "'a list"
  events :: "fetch_event list"

text \<open>
  After the loop: the total is printed, and the shortfall when the last declared total is
  non-zero and larger than what is returned. An exception anywhere in the \<^verbatim>\<open>try\<close> is
  caught by \<^verbatim>\<open>except Exception\<close>, which returns what has been accumulated; so the
  function has a list for every way of leaving the loop.
\<close>

definition after_loop :: "'a loop_exit \<Rightarrow> 'a fetch_result" where
  "after_loop x =
     (case x of
        Raised s \<Rightarrow>
          \<lparr>returned = (if all_tickets s \<noteq> [] then all_tickets s else []),
           events = log s @ [Error_fetching]\<rparr>
      | Broke s \<Rightarrow>
          (let n = length (all_tickets s);
               l1 = log s @ [Fetched_total n];
               l2 = (case total_available s of
                       None \<Rightarrow> l1
                     | Some t \<Rightarrow> if t \<noteq> 0 \<and> int n < t then l1 @ [More_available (t - int n)]
                                 else l1)
           in \<lparr>returned = all_tickets s, events = l2\<rparr>))"

definition fetch_tickets :: "'a server \<Rightarrow> int option \<Rightarrow> 'a fetch_result option" where
  "fetch_tickets srv max_results =
     map_option after_loop (fetch_loop srv max_results initial_state)"

subsection \<open>Runs of the loop\<close>

text \<open>
  The variables after \<open>n\<close> passes that all reached the bottom of the body; \<open>None\<close> when the
  loop was left before.
\<close>

fun state_after :: "'a server \<Rightarrow> int option \<Rightarrow> nat \<Rightarrow> 'a fetch_state option" where
  "state_after srv max_results 0 = Some initial_state"
| "state_after srv max_results (Suc n) =
     (case state_after srv max_results n of
        None \<Rightarrow> None
      | Some s \<Rightarrow>
          (case fetch_body srv max_results s of Continue s' \<Rightarrow> Some s' | Exit x \<Rightarrow> None))"

text \<open>What a cap that is not negative leaves of the server's tickets.\<close>

definition capped :: "int option \<Rightarrow> 'a list \<Rightarrow> 'a list" where
  "capped max_results ts =
     (case max_results of
        None \<Rightarrow> ts
      | Some m \<Rightarrow> if m = 0 then ts else take (nat m) ts)"

text \<open>No cap, or a cap of at least \<open>n\<close>.\<close>

definition no_smaller_cap :: "int option \<Rightarrow> nat \<Rightarrow> bool" where
  "no_smaller_cap max_results n = (case max_results of None \<Rightarrow> True | Some c \<Rightarrow> int n \<le> c)"

text \<open>
  A server that sends one full page of a declared 250 tickets and answers every later
  request with status 503.
\<close>

definition flaky_server :: "string server" where
  "flaky_server start maxr =
     (if start = 0 then Http 200 (Payload (Some (replicate 100 ''L2-1'')) (Some 250))
      else Http 503 Malformed)"


section \<open>The analyzer: \<^verbatim>\<open>ticket_analyzer.py\<close>\<close>

subsection \<open>Tickets as they are stored\<close>

text \<open>
  A ticket is a nested dictionary decoded from JSON. Each key the code reads is a member
  that is absent, \<^verbatim>\<open>null\<close>, or present with a value of the type Jira gives it. A Python
  \<^verbatim>\<open>str\<close> is a \<open>string\<close>, one \<open>char\<close> for one character.
\<close>

datatype 'a member = Absent | Null | Present 'a

datatype py_error = KeyError | AttributeError | TypeError

record named =
  name :: "string member"

record user =
  displayName :: "string member"

record comment =
  comment_author :: "user member"    \<comment> \<open>key \<^verbatim>\<open>author\<close>\<close>
  body :: "string member"

record comment_page =
  comments :: "comment list member"

record item =
  field :: "string member"
  fromString :: "string member"
  toString :: "string member"

record history =
  history_author :: "user member"    \<comment> \<open>key \<^verbatim>\<open>author\<close>\<close>
  items :: "item list member"

record changes =
  histories :: "history list member"

record issue_fields =
  summary :: "string member"
  description :: "string member"
  status :: "named member"
  priority :: "named member"
  issuetype :: "named member"
  assignee :: "user member"
  reporter :: "user member"
  created :: "string member"
  updated :: "string member"
  comment :: "comment_page member"

record ticket =
  key :: "string member"
  ticket_fields :: "issue_fields member"    \<comment> \<open>key \<^verbatim>\<open>fields\<close>\<close>
  changelog :: "changes member"

subsection \<open>Reading members the way the code does\<close>

text \<open>
  A value that reaches an f-string is a \<^verbatim>\<open>str\<close> or \<^verbatim>\<open>None\<close> (\<open>string option\<close>), and
  \<^verbatim>\<open>None\<close> is formatted as the text \<^verbatim>\<open>None\<close>.
\<close>

definition py_format :: "string option \<Rightarrow> string" where
  "py_format v = (case v of None \<Rightarrow> ''None'' | Some s \<Rightarrow> s)"

text \<open>\<^verbatim>\<open>d.get(k, default)\<close> for a text member: the default only replaces an absent key.\<close>

definition get_str :: "string member \<Rightarrow> string \<Rightarrow> string option" where
  "get_str m dflt = (case m of Absent \<Rightarrow> Some dflt | Null \<Rightarrow> None | Present s \<Rightarrow> Some s)"

text \<open>\<^verbatim>\<open>d[k]\<close>: an absent key raises.\<close>

definition subscript :: "'a member \<Rightarrow> py_error + 'a option" where
  "subscript m =
     (case m of Absent \<Rightarrow> Inl KeyError | Null \<Rightarrow> Inr None | Present v \<Rightarrow> Inr (Some v))"

text \<open>
  \<^verbatim>\<open>fields.get('status', {}).get('name', 'Unknown')\<close>: an absent object is the empty
  dictionary, a \<^verbatim>\<open>null\<close> one has no \<^verbatim>\<open>get\<close>.
\<close>

definition get_name :: "named member \<Rightarrow> py_error + string option" where
  "get_name m =
     (case m of
        Absent \<Rightarrow> Inr (Some ''Unknown'')
      | Null \<Rightarrow> Inl AttributeError
      | Present n \<Rightarrow> Inr (get_str (name n) ''Unknown''))"

text \<open>\<^verbatim>\<open>x.get('author', {}).get('displayName', 'Unknown')\<close>, likewise.\<close>

definition get_author :: "user member \<Rightarrow> py_error + string option" where
  "get_author m =
     (case m of
        Absent \<Rightarrow> Inr (Some ''Unknown'')
      | Null \<Rightarrow> Inl AttributeError
      | Present u \<Rightarrow> Inr (get_str (displayName u) ''Unknown''))"

text \<open>
  \<^verbatim>\<open>u.get('displayName', dflt) if u else dflt\<close>, after \<^verbatim>\<open>u = fields.get(k)\<close>: absent and
  \<^verbatim>\<open>null\<close> are both \<^verbatim>\<open>None\<close>, which is false. (An empty dictionary is false as well; it
  has no \<^verbatim>\<open>displayName\<close>, and the result is the default either way.)
\<close>

definition person_name :: "user member \<Rightarrow> string \<Rightarrow> string option" where
  "person_name m dflt =
     (case m of Present u \<Rightarrow> get_str (displayName u) dflt | _ \<Rightarrow> Some dflt)"

text \<open>\<^verbatim>\<open>fields.get(k, '')[:10]\<close>: \<^verbatim>\<open>None\<close> cannot be sliced.\<close>

definition date_part :: "string member \<Rightarrow> py_error + string" where
  "date_part m =
     (case m of
        Absent \<Rightarrow> Inr []
      | Null \<Rightarrow> Inl TypeError
      | Present s \<Rightarrow> Inr (py_prefix s 10))"

text \<open>Sequencing of steps that may raise: the first exception ends the computation.\<close>

definition and_then :: "py_error + 'a \<Rightarrow> ('a \<Rightarrow> py_error + 'b) \<Rightarrow> py_error + 'b" where
  "and_then m f = (case m of Inl e \<Rightarrow> Inl e | Inr x \<Rightarrow> f x)"

text \<open>A \<^verbatim>\<open>for\<close> loop that appends what each pass produces, until a pass raises.\<close>

fun for_each :: "('a \<Rightarrow> py_error + 'b list) \<Rightarrow> 'a list \<Rightarrow> py_error + 'b list" where
  "for_each f [] = Inr []"
| "for_each f (x # xs) =
     and_then (f x) (\<lambda>ys. and_then (for_each f xs) (\<lambda>zs. Inr (ys @ zs)))"


subsection \<open>\<^verbatim>\<open>prepare_ticket_data_for_analysis\<close>\<close>

text \<open>
  The local variables of one pass of the loop over the tickets, as they stand when the
  block of text is formatted.
\<close>

record projection =
  p_key :: "string option"
  p_summary :: "string option"
  p_description :: "string option"
  p_status :: "string option"
  p_priority :: "string option"
  p_issue_type :: "string option"
  p_assignee_name :: "string option"
  p_reporter_name :: "string option"
  p_created :: string
  p_updated :: string
  p_comments :: "string list"
  p_history_items :: "string list"

definition quote :: string where
  "quote = [CHR 0x27]"

text \<open>\<^verbatim>\<open>if description and len(description) > 300: description = description[:300] + "..."\<close>\<close>

definition shorten_description :: "string option \<Rightarrow> string option" where
  "shorten_description d =
     (case d of
        None \<Rightarrow> None
      | Some s \<Rightarrow> if s \<noteq> [] \<and> 300 < length s then Some (py_prefix s 300 @ ''...'') else Some s)"

text \<open>One pass of the loop over the last comments; \<^verbatim>\<open>len(None)\<close> raises.\<close>

definition comment_line :: "comment \<Rightarrow> py_error + string list" where
  "comment_line c =
     and_then (get_author (comment_author c)) (\<lambda>author.
       case body c of
         Null \<Rightarrow> Inl TypeError
       | Absent \<Rightarrow> Inr [''  '' @ py_format author @ '': '' @ []]
       | Present b \<Rightarrow>
           Inr [''  '' @ py_format author @ '': '' @
                (if 150 < length b then py_prefix b 150 @ ''...'' else b)])"

text \<open>
  \<^verbatim>\<open>if comment_field and 'comments' in comment_field\<close>: the field is \<^verbatim>\<open>{}\<close> when absent and
  \<^verbatim>\<open>None\<close> when \<^verbatim>\<open>null\<close>, both false; the key is in the dictionary also when its value is
  \<^verbatim>\<open>null\<close>, which cannot be sliced.
\<close>

definition recent_comments :: "comment_page member \<Rightarrow> py_error + string list" where
  "recent_comments m =
     (case m of
        Present cf \<Rightarrow>
          (case comments cf of
             Absent \<Rightarrow> Inr []
           | Null \<Rightarrow> Inl TypeError
           | Present cs \<Rightarrow> for_each comment_line (py_suffix cs 3))
      | _ \<Rightarrow> Inr [])"

text \<open>One pass of the loop over the last history entries; iterating \<^verbatim>\<open>None\<close> raises.\<close>

definition change_line :: "string option \<Rightarrow> item \<Rightarrow> string" where
  "change_line author i =
     ''  '' @ py_format author @ '': '' @ py_format (get_str (field i) []) @
     '' changed from '' @ quote @ py_format (get_str (fromString i) []) @ quote @
     '' to '' @ quote @ py_format (get_str (toString i) []) @ quote"

definition history_lines :: "history \<Rightarrow> py_error + string list" where
  "history_lines h =
     and_then (get_author (history_author h)) (\<lambda>author.
       case items h of
         Absent \<Rightarrow> Inr []
       | Null \<Rightarrow> Inl TypeError
       | Present its \<Rightarrow> Inr (map (change_line author) its))"

definition recent_history :: "changes member \<Rightarrow> py_error + string list" where
  "recent_history m =
     (case m of
        Present cl \<Rightarrow>
          (case histories cl of
             Absent \<Rightarrow> Inr []
           | Null \<Rightarrow> Inl TypeError
           | Present hs \<Rightarrow> for_each history_lines (py_suffix hs 2))
      | _ \<Rightarrow> Inr [])"

definition project_ticket :: "ticket \<Rightarrow> py_error + projection" where
  "project_ticket t =
     and_then (subscript (ticket_fields t)) (\<lambda>fo.
     and_then (subscript (key t)) (\<lambda>k.
       case fo of
         None \<Rightarrow> Inl AttributeError
       | Some f \<Rightarrow>
           and_then (get_name (status f)) (\<lambda>st.
           and_then (get_name (priority f)) (\<lambda>pr.
           and_then (get_name (issuetype f)) (\<lambda>ty.
           and_then (date_part (created f)) (\<lambda>cr.
           and_then (date_part (updated f)) (\<lambda>up.
           and_then (recent_comments (comment f)) (\<lambda>cs.
           and_then (recent_history (changelog t)) (\<lambda>hs.
             Inr \<lparr>p_key = k,
                  p_summary = get_str (summary f) [],
                  p_description = shorten_description (get_str (description f) []),
                  p_status = st,
                  p_priority = pr,
                  p_issue_type = ty,
                  p_assignee_name = person_name (assignee f) ''Unassigned'',
                  p_reporter_name = person_name (reporter f) ''Unknown'',
                  p_created = cr,
                  p_updated = up,
                  p_comments = cs,
                  p_history_items = hs\<rparr>)))))))))"

text \<open>\<^verbatim>\<open>description or 'No description'\<close>: \<^verbatim>\<open>None\<close> and the empty text are false.\<close>

definition description_text :: "projection \<Rightarrow> string" where
  "description_text p =
     (case p_description p of
        None \<Rightarrow> ''No description''
      | Some d \<Rightarrow> if d = [] then ''No description'' else d)"

definition comments_text :: "projection \<Rightarrow> string" where
  "comments_text p = (if p_comments p \<noteq> [] then join nl (p_comments p) else ''No comments'')"

definition history_text :: "projection \<Rightarrow> string" where
  "history_text p =
     (if p_history_items p \<noteq> [] then join nl (p_history_items p) else ''No recent changes'')"

text \<open>The f-string: every line of it ends with a line feed, the first line is empty.\<close>

definition lines_text :: "string list \<Rightarrow> string" where
  "lines_text ls = concat (map (\<lambda>l. l @ nl) ls)"

definition render :: "projection \<Rightarrow> string" where
  "render p = lines_text
     [[],
      ''Ticket: '' @ py_format (p_key p),
      ''Title: '' @ py_format (p_summary p),
      ''Type: '' @ py_format (p_issue_type p),
      ''Status: '' @ py_format (p_status p),
      ''Priority: '' @ py_format (p_priority p),
      ''Assignee: '' @ py_format (p_assignee_name p),
      ''Reporter: '' @ py_format (p_reporter_name p),
      ''Created: '' @ p_created p,
      ''Updated: '' @ p_updated p,
      ''Description: '' @ description_text p,
      ''Recent Comments:'',
      comments_text p,
      ''Recent History:'',
      history_text p,
      ''---'']"

definition ticket_summary :: "ticket \<Rightarrow> py_error + string" where
  "ticket_summary t = and_then (project_ticket t) (\<lambda>p. Inr (render p))"

definition prepare_ticket_data_for_analysis :: "ticket list \<Rightarrow> py_error + string" where
  "prepare_ticket_data_for_analysis ts =
     and_then (for_each (\<lambda>t. and_then (ticket_summary t) (\<lambda>s. Inr [s])) ts)
       (\<lambda>ticket_summaries. Inr (join nl ticket_summaries))"


subsection \<open>The snapshot file\<close>

text \<open>
  The document written by the fetcher and read by the analyzer: a dictionary with four
  keys, any of which the reader allows to be absent (\<open>None\<close>). What is on disk is the
  document as \<^verbatim>\<open>json.dump\<close> encodes it; the encoder, the decoder (\<open>None\<close> when it raises
  \<^verbatim>\<open>JSONDecodeError\<close>), whether a path can be opened for writing, and the two readings of
  the clock are the environment of the two programs.
\<close>

record snapshot =
  fetch_timestamp :: "string option"
  jql_query :: "string option"
  total_tickets :: "int option"
  snapshot_tickets :: "ticket list option"    \<comment> \<open>key \<^verbatim>\<open>tickets\<close>\<close>

record 'c host =
  json_dump :: "snapshot \<Rightarrow> 'c"
  json_load :: "'c \<Rightarrow> snapshot option"
  writable :: "string \<Rightarrow> bool"
  now_stamp :: string    \<comment> \<open>\<^verbatim>\<open>datetime.now().strftime("%Y%m%d_%H%M%S")\<close>\<close>
  now_iso :: string      \<comment> \<open>\<^verbatim>\<open>datetime.now().isoformat()\<close>\<close>

definition DEFAULT_JQL :: string where
  "DEFAULT_JQL = ''project = L2 AND updated >= -300d ORDER BY updated DESC''"

text \<open>
  \<^verbatim>\<open>save_tickets_to_json\<close> of the fetcher: the files after the call and the name returned,
  which is empty when writing raised.
\<close>

definition save_tickets_to_json ::
  "'c host \<Rightarrow> (string \<rightharpoonup> 'c) \<Rightarrow> ticket list \<Rightarrow> string option \<Rightarrow> (string \<rightharpoonup> 'c) \<times> string" where
  "save_tickets_to_json h files ts filename =
     (let generated = ''jira_tickets_'' @ now_stamp h @ ''.json'';
          fname = (case filename of
                     None \<Rightarrow> generated
                   | Some f \<Rightarrow> if f = [] then generated else f);
          data = \<lparr>fetch_timestamp = Some (now_iso h),
                  jql_query = Some DEFAULT_JQL,
                  total_tickets = Some (int (length ts)),
                  snapshot_tickets = Some ts\<rparr>
      in if writable h fname then (files(fname \<mapsto> json_dump h data), fname)
         else (files, []))"

subsection \<open>The analyzer object and what it does to the outside\<close>

record analyzer =
  ollama_model :: string
  ticket_data :: "snapshot option"
  tickets :: "ticket list"

text \<open>
  What the analyzer prints, asks and sends, in order. Texts are given without colour codes
  and pictographs.
\<close>

datatype effect =
    Say string
  | Say_loaded nat string                              \<comment> \<open>"Loaded ... tickets from ..."\<close>
  | Say_info "string option" "string option" "int option"  \<comment> \<open>the three lines of "Data info"\<close>
  | Show_table "string option list list"              \<comment> \<open>\<^verbatim>\<open>print(tabulate(...))\<close>\<close>
  | List_models                                        \<comment> \<open>\<^verbatim>\<open>ollama.list()\<close>\<close>
  | Chat string string                                 \<comment> \<open>\<^verbatim>\<open>ollama.chat\<close>: model and prompt\<close>
  | Ask_save                                           \<comment> \<open>\<^verbatim>\<open>input("Save analysis to file? (y/n): ")\<close>\<close>
  | Write_analysis string string                       \<comment> \<open>\<^verbatim>\<open>save_analysis\<close>: type and text\<close>

fun chat_requests :: "effect list \<Rightarrow> (string \<times> string) list" where
  "chat_requests [] = []"
| "chat_requests (Chat m p # es) = (m, p) # chat_requests es"
| "chat_requests (e # es) = chat_requests es"

text \<open>
  The text-completion service and the user: the models \<^verbatim>\<open>ollama.list()\<close> names and the
  content \<^verbatim>\<open>ollama.chat\<close> returns (\<open>None\<close> when the call raises), the two instruction texts
  that are not plain ASCII, and the answer to the question whether to save, stripped and
  in lower case.
\<close>

record service =
  available_models :: "string list option"
  chat :: "string \<Rightarrow> string \<Rightarrow> string option"
  detailed_prompt :: string
  trends_prompt :: string
  save_answer :: string

subsection \<open>\<^verbatim>\<open>load_ticket_data\<close>\<close>

definition load_ticket_data ::
  "'c host \<Rightarrow> (string \<rightharpoonup> 'c) \<Rightarrow> string \<Rightarrow> analyzer \<Rightarrow> analyzer \<times> effect list \<times> bool" where
  "load_ticket_data h files filename a =
     (case files filename of
        None \<Rightarrow> (a, [Say (''File not found: '' @ filename)], False)
      | Some content \<Rightarrow>
          (case json_load h content of
             None \<Rightarrow> (a, [Say ''Invalid JSON in file''], False)
           | Some d \<Rightarrow>
               (let a' = a\<lparr>ticket_data := Some d,
                           tickets := (case snapshot_tickets d of None \<Rightarrow> [] | Some ts \<Rightarrow> ts)\<rparr>
                in (a',
                    [Say_loaded (length (tickets a')) filename,
                     Say_info (fetch_timestamp d) (jql_query d) (total_tickets d)],
                    True))))"

subsection \<open>\<^verbatim>\<open>display_ticket_table\<close>\<close>

text \<open>
  One row of the table. \<^verbatim>\<open>len(fields.get('summary', ''))\<close> raises on \<^verbatim>\<open>null\<close>.
\<close>

definition table_row :: "ticket \<Rightarrow> py_error + string option list list" where
  "table_row t =
     and_then (subscript (ticket_fields t)) (\<lambda>fo.
     and_then (subscript (key t)) (\<lambda>k.
       case fo of
         None \<Rightarrow> Inl AttributeError
       | Some f \<Rightarrow>
           and_then (case summary f of
                       Absent \<Rightarrow> Inr []
                     | Null \<Rightarrow> Inl TypeError
                     | Present s \<Rightarrow> Inr (if 50 < length s then py_prefix s 50 @ ''...'' else s))
             (\<lambda>title.
           and_then (get_name (status f)) (\<lambda>st.
           and_then (get_name (priority f)) (\<lambda>pr.
           and_then (date_part (updated f)) (\<lambda>up.
             Inr [[k, Some title, st, pr, person_name (assignee f) ''Unassigned'',
                   Some up]]))))))"

definition display_ticket_table :: "analyzer \<Rightarrow> py_error + effect list" where
  "display_ticket_table a =
     (if tickets a = [] then Inr [Say ''No tickets to display'']
      else and_then (for_each table_row (tickets a))
             (\<lambda>table_data. Inr [Say ''Ticket Overview:'', Show_table table_data]))"

subsection \<open>\<^verbatim>\<open>analyze_with_ollama\<close>\<close>

definition summary_prompt :: string where
  "summary_prompt = lines_text
     [[],
      ''Please analyze these Jira tickets and provide:'',
      [],
      ''1. **Executive Summary** (2-3 sentences about the overall state)'',
      ''2. **Key Statistics** (count by status, priority, type)'',
      ''3. **Main Themes** (what are the common issues/topics)'',
      ''4. **Priority Issues** (highlight high-priority or urgent items)'',
      ''5. **Recommendations** (actionable insights for the team/manager)'',
      [],
      ''Keep the analysis concise and manager-friendly. Focus on actionable insights.'',
      [],
      ''Ticket Data:'']"

text \<open>\<^verbatim>\<open>prompts.get(analysis_type, prompts["summary"])\<close>\<close>

definition prompts_get :: "service \<Rightarrow> string \<Rightarrow> string" where
  "prompts_get sv analysis_type =
     (if analysis_type = ''summary'' then summary_prompt
      else if analysis_type = ''detailed'' then detailed_prompt sv
      else if analysis_type = ''trends'' then trends_prompt sv
      else summary_prompt)"

definition analysis_failed :: string where
  "analysis_failed = ''Analysis failed. Please check Ollama connection.''"

definition analyze_with_ollama ::
  "service \<Rightarrow> analyzer \<Rightarrow> string \<Rightarrow> string \<Rightarrow> effect list \<times> string" where
  "analyze_with_ollama sv a ticket_text analysis_type =
     (let prompt = prompts_get sv analysis_type @ ticket_text;
          before = [Say (''Analyzing tickets with '' @ ollama_model a @ ''...''),
                    Say ''This may take a moment...'',
                    Chat (ollama_model a) prompt]
      in case chat sv (ollama_model a) prompt of
           Some content \<Rightarrow> (before, content)
         | None \<Rightarrow> (before @ [Say ''Error analyzing with Ollama''], analysis_failed))"

subsection \<open>The three analyses\<close>

text \<open>\<^verbatim>\<open>save_analysis\<close> catches what writing raises; it is the single effect \<open>Write_analysis\<close>.\<close>

definition save_analysis :: "string \<Rightarrow> string \<Rightarrow> effect list" where
  "save_analysis analysis analysis_type = [Write_analysis analysis_type analysis]"

text \<open>
  Each analysis returns what it did and the exception that ended it, if one did: only
  building the table and the ticket text can raise, \<^verbatim>\<open>analyze_with_ollama\<close> catches its own.
\<close>

definition quick_summary :: "service \<Rightarrow> analyzer \<Rightarrow> effect list \<times> py_error option" where
  "quick_summary sv a =
     (let started = [Say ''Generating quick summary...''] in
      case display_ticket_table a of
        Inl e \<Rightarrow> (started, Some e)
      | Inr table \<Rightarrow>
          (case prepare_ticket_data_for_analysis (tickets a) of
             Inl e \<Rightarrow> (started @ table, Some e)
           | Inr ticket_text \<Rightarrow>
               (let (asked, analysis) = analyze_with_ollama sv a ticket_text ''summary''
                in (started @ table @ asked @
                      [Say ''Quick Summary:'', Say analysis, Ask_save] @
                      (if save_answer sv = ''y'' then save_analysis analysis ''summary''
                       else []),
                    None))))"

definition detailed_analysis :: "service \<Rightarrow> analyzer \<Rightarrow> effect list \<times> py_error option" where
  "detailed_analysis sv a =
     (let started = [Say ''Generating detailed analysis...''] in
      case display_ticket_table a of
        Inl e \<Rightarrow> (started, Some e)
      | Inr table \<Rightarrow>
          (case prepare_ticket_data_for_analysis (tickets a) of
             Inl e \<Rightarrow> (started @ table, Some e)
           | Inr ticket_text \<Rightarrow>
               (let (asked, analysis) = analyze_with_ollama sv a ticket_text ''detailed''
                in (started @ table @ asked @
                      [Say ''Detailed Analysis:'', Say analysis, Ask_save] @
                      (if save_answer sv = ''y'' then save_analysis analysis ''detailed''
                       else []),
                    None))))"

definition trend_analysis :: "service \<Rightarrow> analyzer \<Rightarrow> effect list \<times> py_error option" where
  "trend_analysis sv a =
     (let started = [Say ''Generating trend analysis...''] in
      case prepare_ticket_data_for_analysis (tickets a) of
        Inl e \<Rightarrow> (started, Some e)
      | Inr ticket_text \<Rightarrow>
          (let (asked, analysis) = analyze_with_ollama sv a ticket_text ''trends''
           in (started @ asked @
                 [Say ''Trend Analysis:'', Say analysis, Ask_save] @
                 (if save_answer sv = ''y'' then save_analysis analysis ''trends''
                  else []),
               None)))"

subsection \<open>\<^verbatim>\<open>run_single_analysis\<close>\<close>

text \<open>
  \<^verbatim>\<open>test_ollama_connection\<close> falls back to the first model the service has when the
  configured one is not among them.
\<close>

definition test_ollama_connection :: "service \<Rightarrow> analyzer \<Rightarrow> analyzer \<times> effect list \<times> bool" where
  "test_ollama_connection sv a =
     (case available_models sv of
        None \<Rightarrow> (a, [List_models, Say ''Ollama connection error''], False)
      | Some ms \<Rightarrow>
          if ollama_model a \<in> set ms
          then (a, [List_models, Say (''Ollama model is available: '' @ ollama_model a)], True)
          else (case ms of
                  m # _ \<Rightarrow>
                    (a\<lparr>ollama_model := m\<rparr>,
                     [List_models, Say (''Model not found: '' @ ollama_model a),
                      Say (''Using instead: '' @ m)],
                     True)
                | [] \<Rightarrow>
                    (a, [List_models, Say (''Model not found: '' @ ollama_model a),
                         Say ''No Ollama models available. Please install a model first.''],
                     False)))"

definition run_single_analysis ::
  "service \<Rightarrow> analyzer \<Rightarrow> string \<Rightarrow> effect list \<times> py_error option" where
  "run_single_analysis sv a analysis_type =
     (case test_ollama_connection sv a of
        (a', tested, connected) \<Rightarrow>
          if \<not> connected then (tested, None)
          else
            (let running = tested @ [Say (''Running '' @ analysis_type @ '' analysis...'')];
                 (did, raised) =
                   (if analysis_type = ''summary'' then quick_summary sv a'
                    else if analysis_type = ''detailed'' then detailed_analysis sv a'
                    else if analysis_type = ''trends'' then trend_analysis sv a'
                    else ([Say (''Unknown analysis type: '' @ analysis_type)], None))
             in (running @ did, raised)))"

subsection \<open>The shape of a stored ticket\<close>

text \<open>
  The tickets on which the projection does not raise: the two keys it subscripts are
  there, and no member it calls a method on, slices, measures or iterates is \<^verbatim>\<open>null\<close>.
  Summary, description, assignee and reporter may be absent or \<^verbatim>\<open>null\<close>, and so may the
  three texts of a change; any other member may be absent. Every record of the data
  model (all members present, only assignee, reporter and description possibly \<^verbatim>\<open>null\<close>)
  is of this shape.
\<close>

definition comment_ok :: "comment \<Rightarrow> bool" where
  "comment_ok c = (comment_author c \<noteq> Null \<and> body c \<noteq> Null)"

definition comments_ok :: "comment_page member \<Rightarrow> bool" where
  "comments_ok m =
     (case m of
        Present cf \<Rightarrow>
          (case comments cf of
             Absent \<Rightarrow> True | Null \<Rightarrow> False | Present cs \<Rightarrow> list_all comment_ok cs)
      | _ \<Rightarrow> True)"

definition history_ok :: "history \<Rightarrow> bool" where
  "history_ok h = (history_author h \<noteq> Null \<and> items h \<noteq> Null)"

definition changelog_ok :: "changes member \<Rightarrow> bool" where
  "changelog_ok m =
     (case m of
        Present cl \<Rightarrow>
          (case histories cl of
             Absent \<Rightarrow> True | Null \<Rightarrow> False | Present hs \<Rightarrow> list_all history_ok hs)
      | _ \<Rightarrow> True)"

definition fields_ok :: "issue_fields \<Rightarrow> bool" where
  "fields_ok f =
     (status f \<noteq> Null \<and> priority f \<noteq> Null \<and> issuetype f \<noteq> Null \<and>
      created f \<noteq> Null \<and> updated f \<noteq> Null \<and> comments_ok (comment f))"

definition well_shaped :: "ticket \<Rightarrow> bool" where
  "well_shaped t =
     (case ticket_fields t of
        Present f \<Rightarrow> key t \<noteq> Absent \<and> fields_ok f \<and> changelog_ok (changelog t)
      | _ \<Rightarrow> False)"

text \<open>
  How a member reads in the formatted text: the text of a \<^verbatim>\<open>get\<close> with default \<^verbatim>\<open>''\<close>,
  the display name of an author, the elements of a list member, and the text of a body.
\<close>

definition shown :: "string member \<Rightarrow> string" where
  "shown m = (case m of Absent \<Rightarrow> [] | Null \<Rightarrow> ''None'' | Present s \<Rightarrow> s)"

definition shown_name :: "user member \<Rightarrow> string" where
  "shown_name m =
     (case m of
        Present u \<Rightarrow>
          (case displayName u of Absent \<Rightarrow> ''Unknown'' | Null \<Rightarrow> ''None'' | Present n \<Rightarrow> n)
      | _ \<Rightarrow> ''Unknown'')"

definition entries :: "'a list member \<Rightarrow> 'a list" where
  "entries m = (case m of Present xs \<Rightarrow> xs | _ \<Rightarrow> [])"

definition text_of :: "string member \<Rightarrow> string" where
  "text_of m = (case m of Present s \<Rightarrow> s | _ \<Rightarrow> [])"


subsection \<open>First and last key of a list of tickets\<close>

definition first_key :: "ticket list \<Rightarrow> string member option" where
  "first_key ts = (case ts of [] \<Rightarrow> None | t # _ \<Rightarrow> Some (key t))"

definition last_key :: "ticket list \<Rightarrow> string member option" where
  "last_key ts = (if ts = [] then None else Some (key (last ts)))"


subsection \<open>Sample data\<close>

text \<open>
  A ticket with a description of 500 characters, five comments (one of 200 characters)
  and three history entries, no assignee and no reporter; one with no description, no
  comments and no history; a service that has the configured model and answers every
  request; an analyzer with no tickets; and a host whose encoding of a document is the
  document itself.
\<close>

definition sample_comment :: "string \<Rightarrow> string \<Rightarrow> comment" where
  "sample_comment who what =
     \<lparr>comment_author = Present \<lparr>displayName = Present who\<rparr>, body = Present what\<rparr>"

definition sample_change :: "string \<Rightarrow> string \<Rightarrow> string \<Rightarrow> item" where
  "sample_change what old new =
     \<lparr>field = Present what, fromString = Present old, toString = Present new\<rparr>"

definition sample_comments :: "comment list" where
  "sample_comments =
     [sample_comment ''Ann'' ''one'', sample_comment ''Bob'' ''two'',
      sample_comment ''Cy'' (replicate 200 CHR ''y''), sample_comment ''Di'' ''four'',
      sample_comment ''Ed'' ''five'']"

definition sample_histories :: "history list" where
  "sample_histories =
     [\<lparr>history_author = Present \<lparr>displayName = Present ''Ann''\<rparr>,
       items = Present [sample_change ''status'' ''New'' ''Open'']\<rparr>,
      \<lparr>history_author = Present \<lparr>displayName = Present ''Bob''\<rparr>,
       items = Present [sample_change ''priority'' ''Low'' ''High'',
                        sample_change ''labels'' [] ''billing'']\<rparr>,
      \<lparr>history_author = Present \<lparr>displayName = Present ''Cy''\<rparr>,
       items = Present [sample_change ''assignee'' ''Di'' []]\<rparr>]"

definition sample_fields :: issue_fields where
  "sample_fields =
     \<lparr>summary = Present ''Payment times out'',
      description = Present (replicate 500 CHR ''x''),
      status = Present \<lparr>name = Present ''Open''\<rparr>,
      priority = Present \<lparr>name = Present ''High''\<rparr>,
      issuetype = Present \<lparr>name = Present ''Bug''\<rparr>,
      assignee = Null,
      reporter = Absent,
      created = Present ''2024-06-24T16:30:00.000+0000'',
      updated = Present ''2024-06-25T09:00:00.000+0000'',
      comment = Present \<lparr>comments = Present sample_comments\<rparr>\<rparr>"

definition sample_ticket :: ticket where
  "sample_ticket =
     \<lparr>key = Present ''L2-7'',
      ticket_fields = Present sample_fields,
      changelog = Present \<lparr>histories = Present sample_histories\<rparr>\<rparr>"

definition bare_ticket :: ticket where
  "bare_ticket =
     \<lparr>key = Present ''L2-8'',
      ticket_fields = Present (sample_fields\<lparr>description := Null, comment := Absent\<rparr>),
      changelog = Absent\<rparr>"

definition sample_service :: service where
  "sample_service =
     \<lparr>available_models = Some [''llama3.2''],
      chat = (\<lambda>m p. Some ''Nothing to report.''),
      detailed_prompt = ''Detailed instructions'',
      trends_prompt = ''Trend instructions'',
      save_answer = ''n''\<rparr>"

definition empty_analyzer :: analyzer where
  "empty_analyzer = \<lparr>ollama_model = ''llama3.2'', ticket_data = None, tickets = []\<rparr>"

definition plain_host :: "snapshot host" where
  "plain_host =
     \<lparr>json_dump = (\<lambda>d. d), json_load = Some, writable = (\<lambda>f. True),
      now_stamp = ''20240624_163000'', now_iso = ''2024-06-24T16:30:00''\<rparr>"


section \<open>Properties of the fetcher\<close>

lemma loop_exit: "fetch_body srv mr s = Exit x \<Longrightarrow> fetch_loop srv mr s = Some x"
  by (subst fetch_loop.simps) simp

lemma loop_continue:
  "fetch_body srv mr s = Continue s' \<Longrightarrow> fetch_loop srv mr s = fetch_loop srv mr s'"
  by (subst fetch_loop.simps) simp

lemma body_fails:
  "request_fails (srv (start_at s) batch_size) \<Longrightarrow>
   \<exists>s'. fetch_body srv mr s = Exit s' \<and>
     (s' = Raised (emit (Page_request (start_at s)) s) \<or>
      (\<exists>c. s' = Broke (emit (Failed_status c) (emit (Page_request (start_at s)) s))))"
  by (auto simp: request_fails_def fetch_body_def Let_def split: response.splits)

lemma body_empty:
  assumes "srv (start_at s) batch_size = Http 200 (Payload (Some []) (Some tot))"
  shows "fetch_body srv mr s =
     Exit (Broke \<lparr>all_tickets = all_tickets s, start_at = start_at s,
       total_available = Some tot,
       log = log s @ [Page_request (start_at s), Batch_fetched 0 tot, No_more_tickets]\<rparr>)"
  using assms by (simp add: fetch_body_def Let_def emit_def)

lemma body_limit:
  assumes "srv (start_at s) batch_size = Http 200 (Payload (Some page) (Some tot))"
    and "page \<noteq> []"
    and "all_tickets s @ page = acc"
    and "limit_reached mr (length acc) = Some m"
  shows "fetch_body srv mr s =
     Exit (Broke \<lparr>all_tickets = py_prefix acc m, start_at = start_at s,
       total_available = Some tot,
       log = log s @ [Page_request (start_at s), Batch_fetched (length page) tot,
         Progress (length acc) tot, Reached_limit m]\<rparr>)"
  using assms(1,2,4) unfolding assms(3) [symmetric]
  by (simp add: fetch_body_def Let_def emit_def)

lemma body_all:
  assumes "srv (start_at s) batch_size = Http 200 (Payload (Some page) (Some tot))"
    and "page \<noteq> []"
    and "all_tickets s @ page = acc"
    and "limit_reached mr (length acc) = None"
    and "tot \<le> int (length acc)"
  shows "fetch_body srv mr s =
     Exit (Broke \<lparr>all_tickets = acc, start_at = start_at s,
       total_available = Some tot,
       log = log s @ [Page_request (start_at s), Batch_fetched (length page) tot,
         Progress (length acc) tot, Fetched_all]\<rparr>)"
  using assms(1,2,4,5) unfolding assms(3) [symmetric]
  by (simp add: fetch_body_def Let_def emit_def)

lemma body_next:
  assumes "srv (start_at s) batch_size = Http 200 (Payload (Some page) (Some tot))"
    and "page \<noteq> []"
    and "all_tickets s @ page = acc"
    and "limit_reached mr (length acc) = None"
    and "\<not> tot \<le> int (length acc)"
  shows "fetch_body srv mr s =
     Continue \<lparr>all_tickets = acc, start_at = start_at s + batch_size,
       total_available = Some tot,
       log = log s @ [Page_request (start_at s), Batch_fetched (length page) tot,
         Progress (length acc) tot]\<rparr>"
  using assms(1,2,4,5) unfolding assms(3) [symmetric]
  by (simp add: fetch_body_def Let_def emit_def)

lemma sim_page:
  "sim_server ts n k = Http 200 (Payload (Some (take k (drop n ts))) (Some (int (length ts))))"
  by (simp add: sim_server_def)

lemma take_page: "take n ts @ take k (drop n ts) = take (n + k) ts"
  by (simp add: take_add)

lemma loop_sim:
  assumes cap: "\<And>m. mr = Some m \<Longrightarrow> 0 \<le> m"
    and acc: "all_tickets s = take (start_at s) ts"
    and lim: "limit_reached mr (length (all_tickets s)) = None"
  shows "\<exists>s'. fetch_loop (sim_server ts) mr s = Some (Broke s') \<and> all_tickets s' = capped mr ts"
  using acc lim
proof (induction "length ts - start_at s" arbitrary: s rule: less_induct)
  case less
  let ?page = "take batch_size (drop (start_at s) ts)"
  let ?acc = "take (start_at s + batch_size) ts"
  note page = sim_page [of ts "start_at s" batch_size]
  show ?case
  proof (cases "?page = []")
    case True
    then have full: "length ts \<le> start_at s" by (simp add: batch_size_def)
    with less.prems have all: "all_tickets s = ts" by simp
    with less.prems(2) cap have "capped mr ts = ts"
      by (auto simp: capped_def limit_reached_def split: option.splits if_splits)
    moreover from page True
    have "sim_server ts (start_at s) batch_size = Http 200 (Payload (Some []) (Some (int (length ts))))"
      by simp
    note loop_exit [OF body_empty [where srv = "sim_server ts" and s = s and mr = mr, OF this]]
    ultimately show ?thesis using all by simp
  next
    case False
    then have lt: "start_at s < length ts" by (simp add: batch_size_def)
    have acc': "all_tickets s @ ?page = ?acc"
      using less.prems(1) by (simp add: take_page)
    show ?thesis
    proof (cases "limit_reached mr (length ?acc)")
      case (Some m)
      then have m: "mr = Some m" "m \<noteq> 0" "m \<le> int (length ?acc)"
        by (auto simp: limit_reached_def split: option.splits if_splits)
      with cap have "0 < m" by force
      moreover from m have "nat m \<le> start_at s + batch_size" by simp
      ultimately have "py_prefix ?acc m = capped mr ts"
        using m by (simp add: py_prefix_def capped_def min_absorb1)
      with loop_exit [OF body_limit [where srv = "sim_server ts" and s = s, OF page False acc' Some]]
      show ?thesis by simp
    next
      case None
      show ?thesis
      proof (cases "int (length ts) \<le> int (length ?acc)")
        case True
        then have all: "?acc = ts" by simp
        with None cap have "capped mr ts = ts"
          by (auto simp: capped_def limit_reached_def split: option.splits if_splits)
        with loop_exit [OF body_all [where srv = "sim_server ts" and s = s, OF page False acc' None True]]
          all
        show ?thesis by simp
      next
        case nf: False
        let ?s' = "\<lparr>all_tickets = ?acc, start_at = start_at s + batch_size,
            total_available = Some (int (length ts)),
            log = log s @ [Page_request (start_at s),
              Batch_fetched (length ?page) (int (length ts)),
              Progress (length ?acc) (int (length ts))]\<rparr>"
        have step: "fetch_loop (sim_server ts) mr s = fetch_loop (sim_server ts) mr ?s'"
          by (rule loop_continue)
            (rule body_next [where srv = "sim_server ts" and s = s, OF page False acc' None nf])
        have "length ts - start_at ?s' < length ts - start_at s"
          using lt by (simp add: batch_size_def)
        moreover have "all_tickets ?s' = take (start_at ?s') ts" by simp
        moreover have "limit_reached mr (length (all_tickets ?s')) = None"
          using None by simp
        ultimately have "\<exists>s''. fetch_loop (sim_server ts) mr ?s' = Some (Broke s'') \<and>
                            all_tickets s'' = capped mr ts"
          by (rule less.hyps)
        then show ?thesis using step by simp
      qed
    qed
  qed
qed

lemma fetch_sim:
  assumes "\<And>m. mr = Some m \<Longrightarrow> 0 \<le> m"
  shows "\<exists>r. fetch_tickets (sim_server ts) mr = Some r \<and> returned r = capped mr ts"
proof -
  have "limit_reached mr (length (all_tickets (initial_state :: 'a fetch_state))) = None"
    using assms by (auto simp: limit_reached_def initial_state_def split: option.splits)
  moreover have "all_tickets (initial_state :: 'a fetch_state) = take (start_at (initial_state :: 'a fetch_state)) ts"
    by (simp add: initial_state_def)
  ultimately obtain s' where "fetch_loop (sim_server ts) mr initial_state = Some (Broke s')"
      "all_tickets s' = capped mr ts"
    using loop_sim [where mr = mr and s = initial_state and ts = ts] assms by blast
  then show ?thesis by (simp add: fetch_tickets_def after_loop_def Let_def)
qed

lemma page_requests_append: "page_requests (xs @ ys) = page_requests xs @ page_requests ys"
  by (induction xs rule: page_requests.induct) simp_all

lemma batch_sizes_append: "batch_sizes (xs @ ys) = batch_sizes xs @ batch_sizes ys"
  by (induction xs rule: batch_sizes.induct) simp_all

lemma body_continueD:
  assumes "fetch_body srv mr s = Continue s'"
  shows "\<exists>t. total_available s' = Some t \<and> int (length (all_tickets s')) < t"
  using assms
  by (auto simp: fetch_body_def Let_def emit_def
      split: response.splits json_body.splits if_splits option.splits)

lemma state_after_loop:
  "state_after srv mr n = Some s \<Longrightarrow> fetch_loop srv mr initial_state = fetch_loop srv mr s"
proof (induction n arbitrary: s)
  case 0
  then show ?case by simp
next
  case (Suc n)
  then obtain s0 where s0: "state_after srv mr n = Some s0" "fetch_body srv mr s0 = Continue s"
    by (auto split: option.splits step.splits)
  from Suc.IH [OF s0(1)] loop_continue [OF s0(2)] show ?case by simp
qed

lemma state_after_total:
  assumes "state_after srv mr n = Some s" "all_tickets s \<noteq> []"
  shows "\<exists>t. total_available s = Some t \<and> int (length (all_tickets s)) < t"
proof (cases n)
  case 0
  with assms show ?thesis by (auto simp: initial_state_def)
next
  case (Suc k)
  with assms(1) obtain s0 where "fetch_body srv mr s0 = Continue s"
    by (auto split: option.splits step.splits)
  then show ?thesis by (rule body_continueD)
qed

lemma lim0: "limit_reached (Some 0) n = limit_reached None n"
  by (simp add: limit_reached_def)

lemma body0: "fetch_body srv (Some 0) s = fetch_body srv None s"
  unfolding fetch_body_def lim0 by (rule refl)

lemma loop_mono:
  assumes run: "fetch_loop srv m1 s = Some y"
    and same: "\<And>s. fetch_body srv m1 s = fetch_body srv m2 s"
  shows "fetch_loop srv m2 s = Some y"
proof -
  have "srv' = srv \<longrightarrow> m = m1 \<longrightarrow> fetch_loop srv m2 s = Some y"
    if "fetch_loop srv' m s = Some y" for srv' m
  proof (rule fetch_loop.raw_induct
      [where P = "\<lambda>srv' m s y. srv' = srv \<longrightarrow> m = m1 \<longrightarrow> fetch_loop srv m2 s = Some y",
        OF _ that])
    fix f srv' m s y
    assume ih: "\<And>srv' m s y. f srv' m s = Some y \<Longrightarrow>
                   srv' = srv \<longrightarrow> m = m1 \<longrightarrow> fetch_loop srv m2 s = Some y"
      and unf: "(case fetch_body srv' m s of Continue s' \<Rightarrow> f srv' m s' | Exit x \<Rightarrow> Some x)
                  = Some y"
    show "srv' = srv \<longrightarrow> m = m1 \<longrightarrow> fetch_loop srv m2 s = Some y"
    proof (intro impI)
      assume eq: "srv' = srv" "m = m1"
      show "fetch_loop srv m2 s = Some y"
      proof (cases "fetch_body srv m2 s")
        case (Continue s')
        with unf eq same have "f srv m1 s' = Some y" by simp
        with ih have "fetch_loop srv m2 s' = Some y" by blast
        with Continue show ?thesis by (subst fetch_loop.simps) simp
      next
        case (Exit x)
        with unf eq same have "x = y" by simp
        with Exit show ?thesis by (subst fetch_loop.simps) simp
      qed
    qed
  qed
  with run show ?thesis by blast
qed

lemma loop0: "fetch_loop srv (Some 0) s = fetch_loop srv None s"
proof (cases "fetch_loop srv (Some 0) s")
  case None
  show ?thesis
  proof (cases "fetch_loop srv None s")
    case None
    with \<open>fetch_loop srv (Some 0) s = None\<close> show ?thesis by simp
  next
    case (Some y)
    then have "fetch_loop srv (Some 0) s = Some y"
      by (rule loop_mono) (simp add: body0)
    with None show ?thesis by simp
  qed
next
  case (Some y)
  then have "fetch_loop srv None s = Some y"
    by (rule loop_mono) (simp add: body0)
  with Some show ?thesis by simp
qed


lemma shortfalls_append: "shortfalls (xs @ ys) = shortfalls xs @ shortfalls ys"
  by (induction xs rule: shortfalls.induct) simp_all

lemma fetch_50_of_500:
  assumes len: "length ts = 500"
  shows "fetch_tickets (sim_server ts) (Some 50) =
     Some \<lparr>returned = take 50 ts,
       events = [Page_request 0, Batch_fetched 100 500, Progress 100 500, Reached_limit 50,
                 Fetched_total 50, More_available 450]\<rparr>"
proof -
  let ?s = "initial_state :: 'a fetch_state"
  have p: "take batch_size (drop (start_at ?s) ts) \<noteq> []"
    using len by (auto simp: batch_size_def initial_state_def)
  have a: "all_tickets ?s @ take batch_size (drop (start_at ?s) ts) = take 100 ts"
    by (simp add: batch_size_def initial_state_def)
  have l: "limit_reached (Some 50) (length (take 100 ts)) = Some 50"
    using len by (simp add: limit_reached_def)
  from loop_exit [OF body_limit [where srv = "sim_server ts" and s = ?s, OF sim_page p a l]] len
  show ?thesis
    by (simp add: fetch_tickets_def after_loop_def Let_def batch_size_def initial_state_def
        py_prefix_def min_def)
qed

text \<open>
  Claim C2. Against the simulated server holding the tickets \<open>ts\<close>, \<^verbatim>\<open>fetch_tickets\<close> with a
  cap \<open>C > 0\<close> returns, and what it returns is the first \<open>C\<close> tickets in the server's
  order, \<open>min C (length ts)\<close> of them; with no cap it returns, and returns all of \<open>ts\<close> in
  the server's order.
\<close>
theorem fetch_tickets_returns_min_of_cap_and_total:
  "(0 < C \<longrightarrow>
      (\<exists>r. fetch_tickets (sim_server ts) (Some C) = Some r \<and>
           returned r = take (nat C) ts \<and>
           int (length (returned r)) = min C (int (length ts)))) \<and>
   (\<exists>r. fetch_tickets (sim_server ts) None = Some r \<and> returned r = ts)"
proof (intro conjI impI)
  assume pos: "0 < C"
  then obtain r where r: "fetch_tickets (sim_server ts) (Some C) = Some r"
      "returned r = capped (Some C) ts"
    using fetch_sim [of "Some C" ts] by auto
  from pos r(2) have "returned r = take (nat C) ts" by (simp add: capped_def)
  moreover from this pos have "int (length (returned r)) = min C (int (length ts))" by auto
  ultimately show "\<exists>r. fetch_tickets (sim_server ts) (Some C) = Some r \<and>
      returned r = take (nat C) ts \<and> int (length (returned r)) = min C (int (length ts))"
    using r(1) by blast
next
  from fetch_sim [of None ts]
  show "\<exists>r. fetch_tickets (sim_server ts) None = Some r \<and> returned r = ts"
    by (auto simp: capped_def)
qed

theorem fetch_tickets_returns_min_of_cap_and_total_witness:
  "(\<exists>r. fetch_tickets (sim_server [''L2-3'', ''L2-2'', ''L2-1'']) (Some 2) = Some r \<and>
        returned r = [''L2-3'', ''L2-2''] \<and> int (length (returned r)) = 2) \<and>
   (\<exists>r. fetch_tickets (sim_server [''L2-3'', ''L2-2'', ''L2-1'']) None = Some r \<and>
        returned r = [''L2-3'', ''L2-2'', ''L2-1''])"
  using fetch_tickets_returns_min_of_cap_and_total [of 2 "[''L2-3'', ''L2-2'', ''L2-1'']"]
  by simp

text \<open>
  Claim C3. Let the loop have made \<open>n\<close> full passes and hold tickets, and let the next
  request fail, by a transport error or a status other than 200. Then \<^verbatim>\<open>fetch_tickets\<close>
  returns (it does not raise, and the failed request is the last one it makes), it returns
  the tickets accumulated so far, and they are fewer than the total last declared.
\<close>
theorem failed_page_returns_accumulated:
  assumes "state_after srv mr n = Some s"
    and "all_tickets s \<noteq> []"
    and "request_fails (srv (start_at s) batch_size)"
  shows "\<exists>r. fetch_tickets srv mr = Some r \<and> returned r = all_tickets s \<and>
     page_requests (events r) = page_requests (log s) @ [start_at s] \<and>
     (\<exists>t. total_available s = Some t \<and> int (length (returned r)) < t)"
proof -
  from body_fails [where srv = srv and s = s and mr = mr, OF assms(3)] obtain x where
    x: "fetch_body srv mr s = Exit x"
      "x = Raised (emit (Page_request (start_at s)) s) \<or>
       (\<exists>c. x = Broke (emit (Failed_status c) (emit (Page_request (start_at s)) s)))"
    by blast
  have "fetch_loop srv mr initial_state = Some x"
    using state_after_loop [OF assms(1)] loop_exit [OF x(1)] by simp
  then have r: "fetch_tickets srv mr = Some (after_loop x)"
    by (simp add: fetch_tickets_def)
  from x(2) have "returned (after_loop x) = all_tickets s"
    by (auto simp: after_loop_def emit_def Let_def split: option.splits)
  moreover from x(2) have "page_requests (events (after_loop x)) = page_requests (log s) @ [start_at s]"
    by (auto simp: after_loop_def emit_def Let_def page_requests_append split: option.splits)
  moreover note state_after_total [OF assms(1,2)]
  ultimately show ?thesis using r by auto
qed

theorem failed_page_returns_accumulated_witness:
  "state_after flaky_server None 1 =
     Some \<lparr>all_tickets = replicate 100 ''L2-1'', start_at = 100, total_available = Some 250,
       log = [Page_request 0, Batch_fetched 100 250, Progress 100 250]\<rparr> \<and>
   request_fails (flaky_server 100 batch_size) \<and>
   (\<exists>r. fetch_tickets flaky_server None = Some r \<and> returned r = replicate 100 ''L2-1'' \<and>
        page_requests (events r) = [0, 100] \<and> int (length (returned r)) < 250)"
proof -
  let ?s = "\<lparr>all_tickets = replicate 100 ''L2-1'', start_at = 100, total_available = Some 250,
       log = [Page_request 0, Batch_fetched 100 250, Progress 100 250]\<rparr>"
  have run: "state_after flaky_server None 1 = Some ?s"
    by (simp add: initial_state_def fetch_body_def flaky_server_def emit_def Let_def
        limit_reached_def batch_size_def)
  have ne: "all_tickets ?s \<noteq> []" by simp
  have fails: "request_fails (flaky_server (start_at ?s) batch_size)"
    by (simp add: request_fails_def flaky_server_def)
  from failed_page_returns_accumulated [OF run ne fails] run fails
  show ?thesis by simp
qed

text \<open>
  Claim C7. Against the simulated server with 250 tickets, with no cap or a cap of at least
  250, \<^verbatim>\<open>fetch_tickets\<close> returns after exactly three page requests, at offsets 0, 100 and
  200, which bring pages of 100, 100 and 50 tickets.
\<close>
theorem three_page_requests_for_250:
  assumes len: "length ts = 250" and cap: "no_smaller_cap mr 250"
  shows "\<exists>r. fetch_tickets (sim_server ts) mr = Some r \<and>
     page_requests (events r) = [0, 100, 200] \<and> batch_sizes (events r) = [100, 100, 50]"
proof -
  let ?srv = "sim_server ts"
  let ?s1 = "\<lparr>all_tickets = take 100 ts, start_at = 100, total_available = Some 250,
     log = [Page_request 0, Batch_fetched 100 250, Progress 100 250]\<rparr>"
  let ?s2 = "\<lparr>all_tickets = take 200 ts, start_at = 200, total_available = Some 250,
     log = [Page_request 0, Batch_fetched 100 250, Progress 100 250,
            Page_request 100, Batch_fetched 100 250, Progress 200 250]\<rparr>"
  have lim: "limit_reached mr n = None" if "n < 250" for n
    using cap that by (auto simp: no_smaller_cap_def limit_reached_def split: option.splits)
  have b1: "fetch_body ?srv mr initial_state = Continue ?s1"
  proof -
    let ?s = "initial_state :: 'a fetch_state"
    have p: "take batch_size (drop (start_at ?s) ts) \<noteq> []"
      using len by (auto simp: batch_size_def initial_state_def)
    have a: "all_tickets ?s @ take batch_size (drop (start_at ?s) ts) = take 100 ts"
      by (simp add: batch_size_def initial_state_def)
    have l: "limit_reached mr (length (take 100 ts)) = None"
      using len lim [of 100] by simp
    have t: "\<not> int (length ts) \<le> int (length (take 100 ts))"
      using len by simp
    from body_next [where srv = ?srv and s = ?s, OF sim_page p a l t] len
    show ?thesis by (simp add: batch_size_def initial_state_def)
  qed
  have b2: "fetch_body ?srv mr ?s1 = Continue ?s2"
  proof -
    have p: "take batch_size (drop (start_at ?s1) ts) \<noteq> []"
      using len by (auto simp: batch_size_def)
    have a: "all_tickets ?s1 @ take batch_size (drop (start_at ?s1) ts) = take 200 ts"
      by (simp add: batch_size_def take_page)
    have l: "limit_reached mr (length (take 200 ts)) = None"
      using len lim [of 200] by simp
    have t: "\<not> int (length ts) \<le> int (length (take 200 ts))"
      using len by simp
    from body_next [where srv = ?srv and s = ?s1, OF sim_page p a l t] len
    show ?thesis by (simp add: batch_size_def)
  qed
  have acc3: "all_tickets ?s2 @ take batch_size (drop (start_at ?s2) ts) = ts"
    using len by (simp add: batch_size_def take_page)
  have ne3: "take batch_size (drop (start_at ?s2) ts) \<noteq> []"
    using len by (auto simp: batch_size_def)
  have "\<exists>s3 e. fetch_body ?srv mr ?s2 = Exit (Broke s3) \<and>
     log s3 = log ?s2 @ [Page_request 200, Batch_fetched 50 250, Progress 250 250, e] \<and>
     (e = Fetched_all \<or> (\<exists>m. e = Reached_limit m))"
  proof (cases "limit_reached mr (length ts)")
    case None
    from body_all [where srv = ?srv and s = ?s2, OF sim_page ne3 acc3 None] len
    show ?thesis by (simp add: batch_size_def)
  next
    case (Some m)
    from body_limit [where srv = ?srv and s = ?s2, OF sim_page ne3 acc3 Some] len
    show ?thesis by (simp add: batch_size_def)
  qed
  then obtain s3 e where s3: "fetch_body ?srv mr ?s2 = Exit (Broke s3)"
    "log s3 = log ?s2 @ [Page_request 200, Batch_fetched 50 250, Progress 250 250, e]"
    "e = Fetched_all \<or> (\<exists>m. e = Reached_limit m)"
    by blast
  have "fetch_loop ?srv mr initial_state = Some (Broke s3)"
    using loop_continue [OF b1] loop_continue [OF b2] loop_exit [OF s3(1)] by simp
  then have "fetch_tickets ?srv mr = Some (after_loop (Broke s3))"
    by (simp add: fetch_tickets_def)
  moreover from s3(2,3) have "page_requests (events (after_loop (Broke s3))) = [0, 100, 200]"
    by (auto simp: after_loop_def Let_def page_requests_append split: option.splits)
  moreover from s3(2,3) have "batch_sizes (events (after_loop (Broke s3))) = [100, 100, 50]"
    by (auto simp: after_loop_def Let_def batch_sizes_append split: option.splits)
  ultimately show ?thesis by simp
qed

theorem three_page_requests_for_250_witness:
  "length (replicate 250 ''L2-1'') = 250 \<and> no_smaller_cap None 250 \<and>
   (\<exists>r. fetch_tickets (sim_server (replicate 250 ''L2-1'')) None = Some r \<and>
     page_requests (events r) = [0, 100, 200] \<and> batch_sizes (events r) = [100, 100, 50])"
  using three_page_requests_for_250 [of "replicate 250 ''L2-1''" None]
  by (simp add: no_smaller_cap_def)

text \<open>
  Claim C10. A cap of 0 is no cap: for every server \<^verbatim>\<open>fetch_tickets\<close> does with the cap 0
  what it does with no cap, and against the simulated server it returns all the tickets.
\<close>
theorem cap_zero_is_no_cap:
  "fetch_tickets srv (Some 0) = fetch_tickets srv None \<and>
   (\<exists>r. fetch_tickets (sim_server ts) (Some 0) = Some r \<and> returned r = ts)"
proof
  show "fetch_tickets srv (Some 0) = fetch_tickets srv None"
    by (simp add: fetch_tickets_def loop0)
  from fetch_sim [of "Some 0" ts]
  show "\<exists>r. fetch_tickets (sim_server ts) (Some 0) = Some r \<and> returned r = ts"
    by (auto simp: capped_def)
qed


section \<open>Properties of the analyzer\<close>

lemma for_each_singletons:
  assumes "\<And>x. x \<in> set xs \<Longrightarrow> f x = Inr [g x]"
  shows "for_each f xs = Inr (map g xs)"
  using assms by (induction xs) (simp_all add: and_then_def)

lemma for_each_lists:
  assumes "\<And>x. x \<in> set xs \<Longrightarrow> f x = Inr (g x)"
  shows "for_each f xs = Inr (concat (map g xs))"
  using assms by (induction xs) (simp_all add: and_then_def)

lemma comment_line_ok:
  assumes "comment_ok c"
  shows "comment_line c =
     Inr [''  '' @ shown_name (comment_author c) @ '': '' @
          (if 150 < length (text_of (body c)) then take 150 (text_of (body c)) @ ''...''
           else text_of (body c))]"
  using assms
  by (cases "comment_author c"; cases "body c")
     (auto simp: comment_ok_def comment_line_def get_author_def and_then_def shown_name_def
        text_of_def get_str_def py_format_def py_prefix_def split: member.splits)

lemma history_lines_ok:
  assumes "history_ok h"
  shows "history_lines h =
     Inr (map (\<lambda>i. ''  '' @ shown_name (history_author h) @ '': '' @ shown (field i) @
                 '' changed from '' @ quote @ shown (fromString i) @ quote @
                 '' to '' @ quote @ shown (toString i) @ quote)
            (entries (items h)))"
  using assms
  by (cases "history_author h"; cases "items h")
     (auto simp: history_ok_def history_lines_def get_author_def and_then_def shown_name_def
        entries_def get_str_def py_format_def change_line_def shown_def split: member.splits)

lemma list_all_suffix: "list_all P xs \<Longrightarrow> list_all P (py_suffix xs n)"
  by (auto simp: py_suffix_def list_all_iff dest: in_set_dropD)

lemma recent_comments_ok:
  assumes "comments_ok m"
  shows "recent_comments m =
     Inr (map (\<lambda>c. ''  '' @ shown_name (comment_author c) @ '': '' @
                 (if 150 < length (text_of (body c)) then take 150 (text_of (body c)) @ ''...''
                  else text_of (body c)))
            (case m of Present cf \<Rightarrow> py_suffix (entries (comments cf)) 3 | _ \<Rightarrow> []))"
proof (cases m)
  case (Present cf)
  show ?thesis
  proof (cases "comments cf")
    case (Present cs)
    with assms \<open>m = Present cf\<close> have "list_all comment_ok (py_suffix cs 3)"
      by (simp add: comments_ok_def list_all_suffix)
    then have "for_each comment_line (py_suffix cs 3) =
       Inr (map (\<lambda>c. ''  '' @ shown_name (comment_author c) @ '': '' @
                 (if 150 < length (text_of (body c)) then take 150 (text_of (body c)) @ ''...''
                  else text_of (body c))) (py_suffix cs 3))"
      by (intro for_each_singletons comment_line_ok) (simp add: list_all_iff)
    with Present \<open>m = Present cf\<close> show ?thesis
      by (simp add: recent_comments_def entries_def)
  qed (use assms Present in \<open>simp_all add: recent_comments_def comments_ok_def entries_def py_suffix_def\<close>)
qed (simp_all add: recent_comments_def)

lemma recent_history_ok:
  assumes "changelog_ok m"
  shows "recent_history m =
     Inr (concat (map (\<lambda>h. map (\<lambda>i. ''  '' @ shown_name (history_author h) @ '': '' @
                 shown (field i) @
                 '' changed from '' @ quote @ shown (fromString i) @ quote @
                 '' to '' @ quote @ shown (toString i) @ quote)
            (entries (items h)))
          (case m of Present cl \<Rightarrow> py_suffix (entries (histories cl)) 2 | _ \<Rightarrow> [])))"
proof (cases m)
  case (Present cl)
  show ?thesis
  proof (cases "histories cl")
    case (Present hs)
    with assms \<open>m = Present cl\<close> have "list_all history_ok (py_suffix hs 2)"
      by (simp add: changelog_ok_def list_all_suffix)
    then have "for_each history_lines (py_suffix hs 2) =
       Inr (concat (map (\<lambda>h. map (\<lambda>i. ''  '' @ shown_name (history_author h) @ '': '' @
                 shown (field i) @
                 '' changed from '' @ quote @ shown (fromString i) @ quote @
                 '' to '' @ quote @ shown (toString i) @ quote)
            (entries (items h))) (py_suffix hs 2)))"
      by (intro for_each_lists history_lines_ok) (simp add: list_all_iff)
    with Present \<open>m = Present cl\<close> show ?thesis
      by (simp add: recent_history_def entries_def)
  qed (use assms Present in \<open>simp_all add: recent_history_def changelog_ok_def entries_def py_suffix_def\<close>)
qed (simp_all add: recent_history_def)

lemma get_name_ok: "m \<noteq> Null \<Longrightarrow> \<exists>v. get_name m = Inr v"
  by (cases m) (simp_all add: get_name_def)

lemma date_part_ok: "m \<noteq> Null \<Longrightarrow> \<exists>v. date_part m = Inr v"
  by (cases m) (simp_all add: date_part_def)

lemma project_ticket_ok:
  assumes "well_shaped t" and "ticket_fields t = Present f"
  shows "\<exists>p. project_ticket t = Inr p \<and>
     p_description p = shorten_description (get_str (description f) []) \<and>
     p_assignee_name p = person_name (assignee f) ''Unassigned'' \<and>
     p_reporter_name p = person_name (reporter f) ''Unknown'' \<and>
     Inr (p_comments p) = recent_comments (comment f) \<and>
     Inr (p_history_items p) = recent_history (changelog t)"
proof -
  from assms have ok: "key t \<noteq> Absent" "fields_ok f" "changelog_ok (changelog t)"
    by (simp_all add: well_shaped_def)
  from ok(1) obtain k where k: "subscript (key t) = Inr k"
    by (cases "key t") (simp_all add: subscript_def)
  from ok(2) obtain st pr ty cr up where g:
    "get_name (status f) = Inr st" "get_name (priority f) = Inr pr"
    "get_name (issuetype f) = Inr ty" "date_part (created f) = Inr cr"
    "date_part (updated f) = Inr up"
    unfolding fields_ok_def using get_name_ok date_part_ok by metis
  from ok(2) obtain cs where cs: "recent_comments (comment f) = Inr cs"
    using recent_comments_ok [of "comment f"] by (simp add: fields_ok_def)
  from ok(3) obtain hs where hs: "recent_history (changelog t) = Inr hs"
    using recent_history_ok [of "changelog t"] by simp
  show ?thesis
    using assms(2) k g cs hs by (simp add: project_ticket_def and_then_def subscript_def)
qed


lemma well_shaped_sample: "well_shaped sample_ticket"
  by (simp add: well_shaped_def sample_ticket_def sample_fields_def fields_ok_def
      comments_ok_def changelog_ok_def comment_ok_def history_ok_def sample_comment_def
      sample_comments_def sample_histories_def)

lemma well_shaped_bare: "well_shaped bare_ticket"
  by (simp add: well_shaped_def bare_ticket_def sample_fields_def fields_ok_def
      comments_ok_def changelog_ok_def)

text \<open>
  Claim C4. A description of more than 300 characters is projected to its first 300
  characters followed by three dots, 303 characters in all (so for one of 500 characters).
\<close>
theorem long_description_is_cut_at_300:
  assumes "well_shaped t" and "ticket_fields t = Present f"
    and "description f = Present d" and "300 < length d"
  shows "\<exists>p. project_ticket t = Inr p \<and> description_text p = take 300 d @ ''...'' \<and>
     length (description_text p) = 303"
proof -
  from project_ticket_ok [OF assms(1,2)] obtain p where
    p: "project_ticket t = Inr p"
      "p_description p = shorten_description (get_str (description f) [])"
    by blast
  from assms(3,4) have "d \<noteq> []" by auto
  with p(2) assms(3,4) have "description_text p = take 300 d @ ''...''"
    by (simp add: description_text_def shorten_description_def get_str_def py_prefix_def)
  moreover from this assms(4) have "length (description_text p) = 303" by simp
  ultimately show ?thesis using p(1) by blast
qed

theorem long_description_is_cut_at_300_witness:
  "well_shaped sample_ticket \<and> ticket_fields sample_ticket = Present sample_fields \<and>
   description sample_fields = Present (replicate 500 CHR ''x'') \<and>
   300 < length (replicate 500 CHR ''x'') \<and>
   (\<exists>p. project_ticket sample_ticket = Inr p \<and>
        description_text p = replicate 300 CHR ''x'' @ ''...'' \<and>
        length (description_text p) = 303)"
proof -
  have f: "ticket_fields sample_ticket = Present sample_fields"
    by (simp add: sample_ticket_def)
  have d: "description sample_fields = Present (replicate 500 CHR ''x'')"
    by (simp add: sample_fields_def)
  have l: "300 < length (replicate 500 CHR ''x'')" by simp
  from long_description_is_cut_at_300 [OF well_shaped_sample f d l] well_shaped_sample f d
  show ?thesis by simp
qed

lemma render_parts:
  "render p =
     lines_text [[], ''Ticket: '' @ py_format (p_key p), ''Title: '' @ py_format (p_summary p),
       ''Type: '' @ py_format (p_issue_type p), ''Status: '' @ py_format (p_status p),
       ''Priority: '' @ py_format (p_priority p)] @
     ''Assignee: '' @ py_format (p_assignee_name p) @ nl @
     ''Reporter: '' @ py_format (p_reporter_name p) @ nl @
     lines_text [''Created: '' @ p_created p, ''Updated: '' @ p_updated p] @
     ''Description: '' @ description_text p @ nl @
     ''Recent Comments:'' @ nl @ comments_text p @ nl @
     ''Recent History:'' @ nl @ history_text p @ nl @ ''---'' @ nl"
  by (simp add: render_def lines_text_def)

lemma prepare_single:
  "ticket_summary t = Inr s \<Longrightarrow> prepare_ticket_data_for_analysis [t] = Inr s"
  by (simp add: prepare_ticket_data_for_analysis_def and_then_def)

lemma summary_of_projection:
  "project_ticket t = Inr p \<Longrightarrow> ticket_summary t = Inr (render p)"
  by (simp add: ticket_summary_def and_then_def)



lemma render_history_part:
  "\<exists>head. render p =
     head @ ''Recent History:'' @ nl @
     (if p_history_items p \<noteq> [] then join nl (p_history_items p) else ''No recent changes'') @
     nl @ ''---'' @ nl"
proof -
  let ?head = "lines_text [[], ''Ticket: '' @ py_format (p_key p), ''Title: '' @ py_format (p_summary p),
       ''Type: '' @ py_format (p_issue_type p), ''Status: '' @ py_format (p_status p),
       ''Priority: '' @ py_format (p_priority p)] @
     ''Assignee: '' @ py_format (p_assignee_name p) @ nl @
     ''Reporter: '' @ py_format (p_reporter_name p) @ nl @
     lines_text [''Created: '' @ p_created p, ''Updated: '' @ p_updated p] @
     ''Description: '' @ description_text p @ nl @
     ''Recent Comments:'' @ nl @ comments_text p @ nl"
  have eq: "render p = ?head @ ''Recent History:'' @ nl @
     (if p_history_items p \<noteq> [] then join nl (p_history_items p) else ''No recent changes'') @
     nl @ ''---'' @ nl"
    by (simp only: render_parts history_text_def append_assoc)
  show ?thesis
    by (rule exI [where x = ?head]) (rule eq)
qed

lemma render_comments_part:
  "\<exists>head tail. render p =
     head @ ''Recent Comments:'' @ nl @
     (if p_comments p \<noteq> [] then join nl (p_comments p) else ''No comments'') @
     nl @ ''Recent History:'' @ nl @ tail"
proof -
  let ?head = "lines_text [[], ''Ticket: '' @ py_format (p_key p), ''Title: '' @ py_format (p_summary p),
       ''Type: '' @ py_format (p_issue_type p), ''Status: '' @ py_format (p_status p),
       ''Priority: '' @ py_format (p_priority p)] @
     ''Assignee: '' @ py_format (p_assignee_name p) @ nl @
     ''Reporter: '' @ py_format (p_reporter_name p) @ nl @
     lines_text [''Created: '' @ p_created p, ''Updated: '' @ p_updated p] @
     ''Description: '' @ description_text p @ nl"
  let ?tail = "history_text p @ nl @ ''---'' @ nl"
  have eq: "render p = ?head @ ''Recent Comments:'' @ nl @
     (if p_comments p \<noteq> [] then join nl (p_comments p) else ''No comments'') @
     nl @ ''Recent History:'' @ nl @ ?tail"
    by (simp only: render_parts comments_text_def append_assoc)
  show ?thesis
    by (rule exI [where x = ?head], rule exI [where x = ?tail]) (rule eq)
qed

lemma render_people_part:
  "\<exists>head mid tail. render p =
     head @ ''Assignee: '' @ py_format (p_assignee_name p) @ nl @
     ''Reporter: '' @ py_format (p_reporter_name p) @ nl @ mid @
     ''Description: '' @ description_text p @ nl @ ''Recent Comments:'' @ nl @ tail"
proof -
  let ?head = "lines_text [[], ''Ticket: '' @ py_format (p_key p), ''Title: '' @ py_format (p_summary p),
       ''Type: '' @ py_format (p_issue_type p), ''Status: '' @ py_format (p_status p),
       ''Priority: '' @ py_format (p_priority p)]"
  let ?mid = "lines_text [''Created: '' @ p_created p, ''Updated: '' @ p_updated p]"
  let ?tail = "comments_text p @ nl @ ''Recent History:'' @ nl @ history_text p @ nl @ ''---'' @ nl"
  have eq: "render p = ?head @ ''Assignee: '' @ py_format (p_assignee_name p) @ nl @
     ''Reporter: '' @ py_format (p_reporter_name p) @ nl @ ?mid @
     ''Description: '' @ description_text p @ nl @ ''Recent Comments:'' @ nl @ ?tail"
    by (simp only: render_parts append_assoc)
  show ?thesis
    by (rule exI [where x = ?head], rule exI [where x = ?mid], rule exI [where x = ?tail])
      (rule eq)
qed

text \<open>
  Claim C5. The history lines of the projection come from the last two history entries
  only, in order, and each change item of such an entry gives exactly one line: the
  author, a colon, the field, and the old and the new value in single quotes, after an
  indent of two blanks. The text returned for the ticket ends with the heading
  \<^verbatim>\<open>Recent History:\<close>, these lines one below the other (\<^verbatim>\<open>No recent changes\<close> when there is
  none) and the separator line.
\<close>
theorem last_two_history_entries_one_line_per_change:
  assumes "well_shaped t" and "changelog t = Present cl" and "histories cl = Present hs"
  shows "\<exists>p head. project_ticket t = Inr p \<and>
     p_history_items p =
       concat (map (\<lambda>h. map (\<lambda>i. ''  '' @ shown_name (history_author h) @ '': '' @
                               shown (field i) @
                               '' changed from '' @ quote @ shown (fromString i) @ quote @
                               '' to '' @ quote @ shown (toString i) @ quote)
                         (entries (items h)))
                 (drop (length hs - 2) hs)) \<and>
     length (p_history_items p) =
       sum_list (map (\<lambda>h. length (entries (items h))) (drop (length hs - 2) hs)) \<and>
     ticket_summary t =
       Inr (head @ ''Recent History:'' @ nl @
            (if p_history_items p \<noteq> [] then join nl (p_history_items p)
             else ''No recent changes'') @
            nl @ ''---'' @ nl) \<and>
     prepare_ticket_data_for_analysis [t] =
       Inr (head @ ''Recent History:'' @ nl @
            (if p_history_items p \<noteq> [] then join nl (p_history_items p)
             else ''No recent changes'') @
            nl @ ''---'' @ nl)"
proof -
  from assms(1) obtain f where f: "ticket_fields t = Present f"
    by (auto simp: well_shaped_def split: member.splits)
  from project_ticket_ok [OF assms(1) f] obtain p where
    p: "project_ticket t = Inr p" "Inr (p_history_items p) = recent_history (changelog t)"
    by blast
  from assms(1) f have "changelog_ok (changelog t)" by (simp add: well_shaped_def)
  from recent_history_ok [OF this] p(2) assms(2,3)
  have lines: "p_history_items p =
       concat (map (\<lambda>h. map (\<lambda>i. ''  '' @ shown_name (history_author h) @ '': '' @
                               shown (field i) @
                               '' changed from '' @ quote @ shown (fromString i) @ quote @
                               '' to '' @ quote @ shown (toString i) @ quote)
                         (entries (items h)))
                 (drop (length hs - 2) hs))"
    by (simp add: entries_def py_suffix_def)
  then have count: "length (p_history_items p) =
       sum_list (map (\<lambda>h. length (entries (items h))) (drop (length hs - 2) hs))"
    by (simp add: length_concat comp_def)
  from render_history_part [of p] obtain head where
    head: "render p = head @ ''Recent History:'' @ nl @
            (if p_history_items p \<noteq> [] then join nl (p_history_items p)
             else ''No recent changes'') @
            nl @ ''---'' @ nl"
    by (rule exE)
  have block: "ticket_summary t =
       Inr (head @ ''Recent History:'' @ nl @
            (if p_history_items p \<noteq> [] then join nl (p_history_items p)
             else ''No recent changes'') @
            nl @ ''---'' @ nl)"
    using summary_of_projection [OF p(1)] unfolding head .
  show ?thesis
  proof (rule exI [where x = p], rule exI [where x = head], intro conjI)
    show "project_ticket t = Inr p" by (rule p(1))
    show "prepare_ticket_data_for_analysis [t] =
       Inr (head @ ''Recent History:'' @ nl @
            (if p_history_items p \<noteq> [] then join nl (p_history_items p)
             else ''No recent changes'') @
            nl @ ''---'' @ nl)"
      by (rule prepare_single [OF block])
  qed (rule lines count block)+
qed

theorem last_two_history_entries_one_line_per_change_witness:
  "well_shaped sample_ticket \<and>
   (\<exists>p head. project_ticket sample_ticket = Inr p \<and>
        p_history_items p =
          [''  Bob: priority changed from '' @ quote @ ''Low'' @ quote @ '' to '' @ quote @
             ''High'' @ quote,
           ''  Bob: labels changed from '' @ quote @ quote @ '' to '' @ quote @
             ''billing'' @ quote,
           ''  Cy: assignee changed from '' @ quote @ ''Di'' @ quote @ '' to '' @ quote @
             quote] \<and>
        ticket_summary sample_ticket =
          Inr (head @ ''Recent History:'' @ nl @
               (''  Bob: priority changed from '' @ quote @ ''Low'' @ quote @ '' to '' @ quote @
                  ''High'' @ quote) @ nl @
               (''  Bob: labels changed from '' @ quote @ quote @ '' to '' @ quote @
                  ''billing'' @ quote) @ nl @
               (''  Cy: assignee changed from '' @ quote @ ''Di'' @ quote @ '' to '' @ quote @
                  quote) @ nl @ ''---'' @ nl))"
proof -
  have c: "changelog sample_ticket = Present \<lparr>histories = Present sample_histories\<rparr>"
    by (simp add: sample_ticket_def)
  have h: "histories \<lparr>histories = Present sample_histories\<rparr> = Present sample_histories"
    by simp
  from last_two_history_entries_one_line_per_change [OF well_shaped_sample c h]
  obtain p head where
    p: "project_ticket sample_ticket = Inr p"
    and lines: "p_history_items p =
       concat (map (\<lambda>h. map (\<lambda>i. ''  '' @ shown_name (history_author h) @ '': '' @
                               shown (field i) @
                               '' changed from '' @ quote @ shown (fromString i) @ quote @
                               '' to '' @ quote @ shown (toString i) @ quote)
                         (entries (items h)))
                 (drop (length sample_histories - 2) sample_histories))"
    and block: "ticket_summary sample_ticket =
       Inr (head @ ''Recent History:'' @ nl @
            (if p_history_items p \<noteq> [] then join nl (p_history_items p)
             else ''No recent changes'') @
            nl @ ''---'' @ nl)"
    by blast
  from lines have l: "p_history_items p =
          [''  Bob: priority changed from '' @ quote @ ''Low'' @ quote @ '' to '' @ quote @
             ''High'' @ quote,
           ''  Bob: labels changed from '' @ quote @ quote @ '' to '' @ quote @
             ''billing'' @ quote,
           ''  Cy: assignee changed from '' @ quote @ ''Di'' @ quote @ '' to '' @ quote @
             quote]"
    by (simp add: shown_name_def shown_def entries_def sample_change_def sample_histories_def)
  from block have b: "ticket_summary sample_ticket =
          Inr (head @ ''Recent History:'' @ nl @
               (''  Bob: priority changed from '' @ quote @ ''Low'' @ quote @ '' to '' @ quote @
                  ''High'' @ quote) @ nl @
               (''  Bob: labels changed from '' @ quote @ quote @ '' to '' @ quote @
                  ''billing'' @ quote) @ nl @
               (''  Cy: assignee changed from '' @ quote @ ''Di'' @ quote @ '' to '' @ quote @
                  quote) @ nl @ ''---'' @ nl)"
    unfolding l by simp
  show ?thesis
  proof (rule conjI [OF well_shaped_sample], rule exI [where x = p], rule exI [where x = head],
      intro conjI)
  qed (rule p l b)+
qed

text \<open>
  Claim C8. The comment lines of the projection are those of the last three comments in
  stored order, one each: the author's display name (after an indent of two blanks), a
  colon, and the body, cut to its first 150 characters and three dots when it is longer.
  The text returned for the ticket has them one below the other (\<^verbatim>\<open>No comments\<close> when there
  is none) between the headings \<^verbatim>\<open>Recent Comments:\<close> and \<^verbatim>\<open>Recent History:\<close>.
\<close>
theorem last_three_comments_in_order:
  assumes "well_shaped t" and "ticket_fields t = Present f"
    and "comment f = Present cf" and "comments cf = Present cs"
  shows "\<exists>p head tail. project_ticket t = Inr p \<and>
     p_comments p =
       map (\<lambda>c. ''  '' @ shown_name (comment_author c) @ '': '' @
                 (if 150 < length (text_of (body c)) then take 150 (text_of (body c)) @ ''...''
                  else text_of (body c)))
         (drop (length cs - 3) cs) \<and>
     length (p_comments p) = min 3 (length cs) \<and>
     ticket_summary t =
       Inr (head @ ''Recent Comments:'' @ nl @
            (if p_comments p \<noteq> [] then join nl (p_comments p) else ''No comments'') @
            nl @ ''Recent History:'' @ nl @ tail) \<and>
     prepare_ticket_data_for_analysis [t] =
       Inr (head @ ''Recent Comments:'' @ nl @
            (if p_comments p \<noteq> [] then join nl (p_comments p) else ''No comments'') @
            nl @ ''Recent History:'' @ nl @ tail)"
proof -
  from project_ticket_ok [OF assms(1,2)] obtain p where
    p: "project_ticket t = Inr p" "Inr (p_comments p) = recent_comments (comment f)"
    by blast
  from assms(1,2) have "comments_ok (comment f)" by (simp add: well_shaped_def fields_ok_def)
  from recent_comments_ok [OF this] p(2) assms(3,4)
  have lines: "p_comments p =
       map (\<lambda>c. ''  '' @ shown_name (comment_author c) @ '': '' @
                 (if 150 < length (text_of (body c)) then take 150 (text_of (body c)) @ ''...''
                  else text_of (body c)))
         (drop (length cs - 3) cs)"
    by (simp add: entries_def py_suffix_def)
  then have count: "length (p_comments p) = min 3 (length cs)" by auto
  from render_comments_part [of p] obtain head tail where
    parts: "render p = head @ ''Recent Comments:'' @ nl @
            (if p_comments p \<noteq> [] then join nl (p_comments p) else ''No comments'') @
            nl @ ''Recent History:'' @ nl @ tail"
    by (elim exE)
  have block: "ticket_summary t =
       Inr (head @ ''Recent Comments:'' @ nl @
            (if p_comments p \<noteq> [] then join nl (p_comments p) else ''No comments'') @
            nl @ ''Recent History:'' @ nl @ tail)"
    using summary_of_projection [OF p(1)] unfolding parts .
  show ?thesis
  proof (rule exI [where x = p], rule exI [where x = head], rule exI [where x = tail],
      intro conjI)
    show "project_ticket t = Inr p" by (rule p(1))
    show "prepare_ticket_data_for_analysis [t] =
       Inr (head @ ''Recent Comments:'' @ nl @
            (if p_comments p \<noteq> [] then join nl (p_comments p) else ''No comments'') @
            nl @ ''Recent History:'' @ nl @ tail)"
      by (rule prepare_single [OF block])
  qed (rule lines count block)+
qed

theorem last_three_comments_in_order_witness:
  "well_shaped sample_ticket \<and>
   (\<exists>p head tail. project_ticket sample_ticket = Inr p \<and>
        p_comments p =
          [''  Cy: '' @ replicate 150 CHR ''y'' @ ''...'', ''  Di: four'', ''  Ed: five''] \<and>
        ticket_summary sample_ticket =
          Inr (head @ ''Recent Comments:'' @ nl @
               (''  Cy: '' @ replicate 150 CHR ''y'' @ ''...'') @ nl @
               ''  Di: four'' @ nl @ ''  Ed: five'' @ nl @
               ''Recent History:'' @ nl @ tail))"
proof -
  have f: "ticket_fields sample_ticket = Present sample_fields"
    by (simp add: sample_ticket_def)
  have c: "comment sample_fields = Present \<lparr>comments = Present sample_comments\<rparr>"
    by (simp add: sample_fields_def)
  have k: "comments \<lparr>comments = Present sample_comments\<rparr> = Present sample_comments"
    by simp
  from last_three_comments_in_order [OF well_shaped_sample f c k]
  obtain p head tail where
    p: "project_ticket sample_ticket = Inr p"
    and lines: "p_comments p =
       map (\<lambda>c. ''  '' @ shown_name (comment_author c) @ '': '' @
                 (if 150 < length (text_of (body c)) then take 150 (text_of (body c)) @ ''...''
                  else text_of (body c)))
         (drop (length sample_comments - 3) sample_comments)"
    and block: "ticket_summary sample_ticket =
       Inr (head @ ''Recent Comments:'' @ nl @
            (if p_comments p \<noteq> [] then join nl (p_comments p) else ''No comments'') @
            nl @ ''Recent History:'' @ nl @ tail)"
    by blast
  from lines have l: "p_comments p =
          [''  Cy: '' @ replicate 150 CHR ''y'' @ ''...'', ''  Di: four'', ''  Ed: five'']"
    by (simp add: shown_name_def text_of_def sample_comment_def sample_comments_def)
  from block have b: "ticket_summary sample_ticket =
          Inr (head @ ''Recent Comments:'' @ nl @
               (''  Cy: '' @ replicate 150 CHR ''y'' @ ''...'') @ nl @
               ''  Di: four'' @ nl @ ''  Ed: five'' @ nl @
               ''Recent History:'' @ nl @ tail)"
    unfolding l by simp
  show ?thesis
  proof (rule conjI [OF well_shaped_sample], rule exI [where x = p], rule exI [where x = head],
      rule exI [where x = tail], intro conjI)
  qed (rule p l b)+
qed

lemma ticket_summary_total:
  assumes "well_shaped t" and "ticket_fields t = Present f"
  shows "\<exists>s. ticket_summary t = Inr s"
  using project_ticket_ok [OF assms] by (auto simp: ticket_summary_def and_then_def)

text \<open>
  Claim C6. On every ticket of the data model's shape the projection returns a block of
  text and does not raise. The text has the lines \<^verbatim>\<open>Assignee:\<close>, \<^verbatim>\<open>Reporter:\<close> and
  \<^verbatim>\<open>Description:\<close>; an absent or \<^verbatim>\<open>null\<close> assignee is written there as \<^verbatim>\<open>Unassigned\<close>, an
  absent or \<^verbatim>\<open>null\<close> reporter as \<^verbatim>\<open>Unknown\<close>, an absent or \<^verbatim>\<open>null\<close> description as
  \<^verbatim>\<open>No description\<close>, and the description written is never empty.
\<close>
theorem projection_total_with_placeholders:
  assumes "well_shaped t" and "ticket_fields t = Present f"
  shows "\<exists>p head a r mid d tail.
     project_ticket t = Inr p \<and> ticket_summary t = Inr (render p) \<and>
     ticket_summary t =
       Inr (head @ ''Assignee: '' @ a @ nl @ ''Reporter: '' @ r @ nl @ mid @
            ''Description: '' @ d @ nl @ ''Recent Comments:'' @ nl @ tail) \<and>
     prepare_ticket_data_for_analysis [t] =
       Inr (head @ ''Assignee: '' @ a @ nl @ ''Reporter: '' @ r @ nl @ mid @
            ''Description: '' @ d @ nl @ ''Recent Comments:'' @ nl @ tail) \<and>
     a = py_format (p_assignee_name p) \<and> r = py_format (p_reporter_name p) \<and>
     d = description_text p \<and>
     (assignee f = Absent \<or> assignee f = Null \<longrightarrow>
        p_assignee_name p = Some ''Unassigned'' \<and> a = ''Unassigned'') \<and>
     (reporter f = Absent \<or> reporter f = Null \<longrightarrow>
        p_reporter_name p = Some ''Unknown'' \<and> r = ''Unknown'') \<and>
     (description f = Absent \<or> description f = Null \<longrightarrow>
        description_text p = ''No description'' \<and> d = ''No description'') \<and>
     description_text p \<noteq> [] \<and> d \<noteq> []"
proof -
  from project_ticket_ok [OF assms] obtain p where
    p: "project_ticket t = Inr p"
      "p_description p = shorten_description (get_str (description f) [])"
      "p_assignee_name p = person_name (assignee f) ''Unassigned''"
      "p_reporter_name p = person_name (reporter f) ''Unknown''"
    by blast
  let ?a = "py_format (p_assignee_name p)"
  let ?r = "py_format (p_reporter_name p)"
  let ?d = "description_text p"
  have whole: "ticket_summary t = Inr (render p)"
    by (rule summary_of_projection [OF p(1)])
  from render_people_part [of p] obtain head mid tail where
    parts: "render p = head @ ''Assignee: '' @ ?a @ nl @ ''Reporter: '' @ ?r @ nl @ mid @
            ''Description: '' @ ?d @ nl @ ''Recent Comments:'' @ nl @ tail"
    by (elim exE)
  have block: "ticket_summary t =
       Inr (head @ ''Assignee: '' @ ?a @ nl @ ''Reporter: '' @ ?r @ nl @ mid @
            ''Description: '' @ ?d @ nl @ ''Recent Comments:'' @ nl @ tail)"
    using whole unfolding parts .
  have who: "assignee f = Absent \<or> assignee f = Null \<longrightarrow>
      p_assignee_name p = Some ''Unassigned'' \<and> ?a = ''Unassigned''"
    using p(3) by (auto simp: person_name_def py_format_def)
  have by_whom: "reporter f = Absent \<or> reporter f = Null \<longrightarrow>
      p_reporter_name p = Some ''Unknown'' \<and> ?r = ''Unknown''"
    using p(4) by (auto simp: person_name_def py_format_def)
  have what: "description f = Absent \<or> description f = Null \<longrightarrow>
      description_text p = ''No description'' \<and> ?d = ''No description''"
    using p(2) by (auto simp: description_text_def shorten_description_def get_str_def)
  have filled: "description_text p \<noteq> []"
    by (simp add: description_text_def split: option.split)
  show ?thesis
  proof (rule exI [where x = p], rule exI [where x = head], rule exI [where x = ?a],
      rule exI [where x = ?r], rule exI [where x = mid], rule exI [where x = ?d],
      rule exI [where x = tail], intro conjI)
    show "project_ticket t = Inr p" by (rule p(1))
    show "prepare_ticket_data_for_analysis [t] =
       Inr (head @ ''Assignee: '' @ ?a @ nl @ ''Reporter: '' @ ?r @ nl @ mid @
            ''Description: '' @ ?d @ nl @ ''Recent Comments:'' @ nl @ tail)"
      by (rule prepare_single [OF block])
  qed (rule whole block who by_whom what filled refl)+
qed

theorem projection_total_with_placeholders_witness:
  "well_shaped bare_ticket \<and>
   ticket_summary bare_ticket =
     Inr (nl @ ''Ticket: L2-8'' @ nl @ ''Title: Payment times out'' @ nl @ ''Type: Bug'' @ nl @
          ''Status: Open'' @ nl @ ''Priority: High'' @ nl @ ''Assignee: Unassigned'' @ nl @
          ''Reporter: Unknown'' @ nl @ ''Created: 2024-06-24'' @ nl @
          ''Updated: 2024-06-25'' @ nl @ ''Description: No description'' @ nl @
          ''Recent Comments:'' @ nl @ ''No comments'' @ nl @ ''Recent History:'' @ nl @
          ''No recent changes'' @ nl @ ''---'' @ nl) \<and>
   (\<exists>p head mid tail.
        project_ticket bare_ticket = Inr p \<and>
        ticket_summary bare_ticket =
          Inr (head @ ''Assignee: '' @ ''Unassigned'' @ nl @ ''Reporter: '' @ ''Unknown'' @ nl @
               mid @ ''Description: '' @ ''No description'' @ nl @ ''Recent Comments:'' @ nl @
               tail) \<and>
        p_assignee_name p = Some ''Unassigned'' \<and> p_reporter_name p = Some ''Unknown'' \<and>
        description_text p = ''No description'')"
proof -
  have f: "ticket_fields bare_ticket =
      Present (sample_fields\<lparr>description := Null, comment := Absent\<rparr>)"
    by (simp add: bare_ticket_def)
  have whole: "ticket_summary bare_ticket =
     Inr (nl @ ''Ticket: L2-8'' @ nl @ ''Title: Payment times out'' @ nl @ ''Type: Bug'' @ nl @
          ''Status: Open'' @ nl @ ''Priority: High'' @ nl @ ''Assignee: Unassigned'' @ nl @
          ''Reporter: Unknown'' @ nl @ ''Created: 2024-06-24'' @ nl @
          ''Updated: 2024-06-25'' @ nl @ ''Description: No description'' @ nl @
          ''Recent Comments:'' @ nl @ ''No comments'' @ nl @ ''Recent History:'' @ nl @
          ''No recent changes'' @ nl @ ''---'' @ nl)"
    by (simp add: ticket_summary_def project_ticket_def and_then_def subscript_def
        bare_ticket_def sample_fields_def get_name_def get_str_def date_part_def py_prefix_def
        recent_comments_def recent_history_def person_name_def shorten_description_def
        render_def lines_text_def py_format_def description_text_def comments_text_def
        history_text_def)
  from projection_total_with_placeholders [OF well_shaped_bare f]
  obtain p head a r mid d tail where
    p: "project_ticket bare_ticket = Inr p"
    and block: "ticket_summary bare_ticket =
       Inr (head @ ''Assignee: '' @ a @ nl @ ''Reporter: '' @ r @ nl @ mid @
            ''Description: '' @ d @ nl @ ''Recent Comments:'' @ nl @ tail)"
    and who: "assignee (sample_fields\<lparr>description := Null, comment := Absent\<rparr>) = Absent \<or>
        assignee (sample_fields\<lparr>description := Null, comment := Absent\<rparr>) = Null \<longrightarrow>
        p_assignee_name p = Some ''Unassigned'' \<and> a = ''Unassigned''"
    and by_whom: "reporter (sample_fields\<lparr>description := Null, comment := Absent\<rparr>) = Absent \<or>
        reporter (sample_fields\<lparr>description := Null, comment := Absent\<rparr>) = Null \<longrightarrow>
        p_reporter_name p = Some ''Unknown'' \<and> r = ''Unknown''"
    and what: "description (sample_fields\<lparr>description := Null, comment := Absent\<rparr>) = Absent \<or>
        description (sample_fields\<lparr>description := Null, comment := Absent\<rparr>) = Null \<longrightarrow>
        description_text p = ''No description'' \<and> d = ''No description''"
    by blast
  from who have a: "p_assignee_name p = Some ''Unassigned''" "a = ''Unassigned''"
    by (simp_all add: sample_fields_def)
  from by_whom have r: "p_reporter_name p = Some ''Unknown''" "r = ''Unknown''"
    by (simp_all add: sample_fields_def)
  from what have d: "description_text p = ''No description''" "d = ''No description''"
    by simp_all
  have b: "ticket_summary bare_ticket =
          Inr (head @ ''Assignee: '' @ ''Unassigned'' @ nl @ ''Reporter: '' @ ''Unknown'' @ nl @
               mid @ ''Description: '' @ ''No description'' @ nl @ ''Recent Comments:'' @ nl @
               tail)"
    using block unfolding a(2) r(2) d(2) .
  show ?thesis
  proof (rule conjI [OF well_shaped_bare], rule conjI [OF whole], rule exI [where x = p],
      rule exI [where x = head], rule exI [where x = mid], rule exI [where x = tail],
      intro conjI)
  qed (rule p b a(1) r(1) d(1))+
qed

lemma prepare_ticket_data_total:
  assumes "list_all well_shaped ts"
  shows "\<exists>s. prepare_ticket_data_for_analysis ts = Inr s"
proof -
  have "\<exists>ss. for_each (\<lambda>t. and_then (ticket_summary t) (\<lambda>s. Inr [s])) ts = Inr ss"
    using assms
  proof (induction ts)
    case Nil
    show ?case by simp
  next
    case (Cons t ts)
    then have t: "well_shaped t" and ts: "list_all well_shaped ts" by simp_all
    from t obtain f where "ticket_fields t = Present f"
      by (auto simp: well_shaped_def split: member.splits)
    from ticket_summary_total [OF t this] Cons.IH [OF ts]
    show ?case by (auto simp: and_then_def)
  qed
  then show ?thesis by (auto simp: prepare_ticket_data_for_analysis_def and_then_def)
qed


lemma chat_requests_append: "chat_requests (xs @ ys) = chat_requests xs @ chat_requests ys"
  by (induction xs rule: chat_requests.induct) simp_all

lemma null_priority_raises:
  assumes "ticket_fields t = Present f" and "key t \<noteq> Absent"
    and "status f \<noteq> Null" and "priority f = Null"
  shows "project_ticket t = Inl AttributeError"
  using assms
  by (cases "key t"; cases "status f")
     (simp_all add: project_ticket_def and_then_def subscript_def get_name_def)

text \<open>
  Claim C9. When the decoder inverts the encoder and \<^verbatim>\<open>save_tickets_to_json\<close> has written
  the file, \<^verbatim>\<open>load_ticket_data\<close> of that file succeeds with the same tickets: the same
  number of them, the same first and last key, and a recorded total equal to that number.
\<close>
theorem snapshot_round_trip:
  assumes "\<And>d. json_load h (json_dump h d) = Some d"
    and "save_tickets_to_json h files ts filename = (files', fname)"
    and "fname \<noteq> []"
  shows "\<exists>a' said. load_ticket_data h files' fname a = (a', said, True) \<and>
     tickets a' = ts \<and> length (tickets a') = length ts \<and>
     first_key (tickets a') = first_key ts \<and> last_key (tickets a') = last_key ts \<and>
     (\<exists>d. ticket_data a' = Some d \<and> total_tickets d = Some (int (length ts)))"
proof -
  let ?data = "\<lparr>fetch_timestamp = Some (now_iso h), jql_query = Some DEFAULT_JQL,
      total_tickets = Some (int (length ts)), snapshot_tickets = Some ts\<rparr>"
  from assms(2,3) have "files' fname = Some (json_dump h ?data)"
    by (auto simp: save_tickets_to_json_def Let_def split: if_splits)
  then show ?thesis
    by (simp add: load_ticket_data_def assms(1) Let_def)
qed

theorem snapshot_round_trip_witness:
  "save_tickets_to_json plain_host Map.empty [sample_ticket, bare_ticket] None =
     ([''jira_tickets_20240624_163000.json'' \<mapsto>
         \<lparr>fetch_timestamp = Some ''2024-06-24T16:30:00'', jql_query = Some DEFAULT_JQL,
          total_tickets = Some 2, snapshot_tickets = Some [sample_ticket, bare_ticket]\<rparr>],
      ''jira_tickets_20240624_163000.json'') \<and>
   (\<exists>a' said.
      load_ticket_data plain_host
        [''jira_tickets_20240624_163000.json'' \<mapsto>
           \<lparr>fetch_timestamp = Some ''2024-06-24T16:30:00'', jql_query = Some DEFAULT_JQL,
            total_tickets = Some 2, snapshot_tickets = Some [sample_ticket, bare_ticket]\<rparr>]
        ''jira_tickets_20240624_163000.json'' empty_analyzer = (a', said, True) \<and>
      length (tickets a') = 2 \<and>
      first_key (tickets a') = Some (Present ''L2-7'') \<and>
      last_key (tickets a') = Some (Present ''L2-8''))"
proof -
  have codec: "json_load plain_host (json_dump plain_host d) = Some d" for d
    by (simp add: plain_host_def)
  have saved: "save_tickets_to_json plain_host Map.empty [sample_ticket, bare_ticket] None =
     ([''jira_tickets_20240624_163000.json'' \<mapsto>
         \<lparr>fetch_timestamp = Some ''2024-06-24T16:30:00'', jql_query = Some DEFAULT_JQL,
          total_tickets = Some 2, snapshot_tickets = Some [sample_ticket, bare_ticket]\<rparr>],
      ''jira_tickets_20240624_163000.json'')"
    by (simp add: save_tickets_to_json_def plain_host_def Let_def)
  have named: "''jira_tickets_20240624_163000.json'' \<noteq> []" by simp
  from snapshot_round_trip [OF codec saved named, of empty_analyzer]
  obtain a' said where r:
    "load_ticket_data plain_host
        [''jira_tickets_20240624_163000.json'' \<mapsto>
           \<lparr>fetch_timestamp = Some ''2024-06-24T16:30:00'', jql_query = Some DEFAULT_JQL,
            total_tickets = Some 2, snapshot_tickets = Some [sample_ticket, bare_ticket]\<rparr>]
        ''jira_tickets_20240624_163000.json'' empty_analyzer = (a', said, True)"
    "tickets a' = [sample_ticket, bare_ticket]"
    by blast
  from r(2) have "length (tickets a') = 2"
    and "first_key (tickets a') = Some (Present ''L2-7'')"
    and "last_key (tickets a') = Some (Present ''L2-8'')"
    by (simp_all add: first_key_def last_key_def sample_ticket_def bare_ticket_def)
  with r(1) saved show ?thesis by blast
qed

text \<open>
  Claim C1, as the code has it. On an analyzer with no tickets \<^verbatim>\<open>quick_summary\<close> tells the
  user \<^verbatim>\<open>No tickets to display\<close> and still sends exactly one completion request, whose
  prompt is the summary instruction followed by an empty ticket text; it does not raise.
  That no request is sent fails: the sample service is asked once, both by
  \<^verbatim>\<open>quick_summary\<close> and by the whole run for the analysis type \<^verbatim>\<open>summary\<close>.
\<close>
theorem summary_of_no_tickets_asks_once:
  "chat_requests (fst (quick_summary sv (a\<lparr>tickets := []\<rparr>))) =
     [(ollama_model a, summary_prompt)] \<and>
   Say ''No tickets to display'' \<in> set (fst (quick_summary sv (a\<lparr>tickets := []\<rparr>))) \<and>
   snd (quick_summary sv (a\<lparr>tickets := []\<rparr>)) = None"
  by (simp add: quick_summary_def display_ticket_table_def
      prepare_ticket_data_for_analysis_def and_then_def analyze_with_ollama_def
      prompts_get_def Let_def save_analysis_def split: option.split)

theorem summary_of_no_tickets_asks_once_witness:
  "chat_requests (fst (quick_summary sample_service empty_analyzer)) =
     [(''llama3.2'', summary_prompt)] \<and>
   Say ''No tickets to display'' \<in> set (fst (quick_summary sample_service empty_analyzer))"
  using summary_of_no_tickets_asks_once [of sample_service empty_analyzer]
  by (simp add: empty_analyzer_def)

theorem summary_of_no_tickets_counterexample:
  "tickets empty_analyzer = [] \<and>
   chat_requests (fst (quick_summary sample_service empty_analyzer)) \<noteq> [] \<and>
   chat_requests (fst (run_single_analysis sample_service empty_analyzer ''summary'')) \<noteq> []"
  by (simp add: run_single_analysis_def test_ollama_connection_def sample_service_def
      empty_analyzer_def quick_summary_def display_ticket_table_def
      prepare_ticket_data_for_analysis_def and_then_def analyze_with_ollama_def
      prompts_get_def Let_def save_analysis_def chat_requests_append)

end
